theory Spec2Isabelle
  imports Main "HOL-Library.Word"
begin

unbundle bit_operations_syntax

section \<open>Go integers, strings and the runtime\<close>

text \<open>
  Go's \<open>int\<close> is a 64-bit two's complement integer on the platforms the interpreter
  targets. Values are modelled as \<open>int\<close>; every arithmetic result of the source is passed
  through \<open>wrap64\<close>, which is the identity on the 64-bit range and wraps around outside
  of it. Division and remainder truncate towards zero.
\<close>

definition wrap64 :: "int \<Rightarrow> int" where
  "wrap64 x = signed_take_bit 63 x"

definition int64_ok :: "int \<Rightarrow> bool" where
  "int64_ok x = (- (2 ^ 63) \<le> x \<and> x < 2 ^ 63)"

definition quo :: "int \<Rightarrow> int \<Rightarrow> int" where
  "quo a b = sgn a * sgn b * (\<bar>a\<bar> div \<bar>b\<bar>)"

definition rem :: "int \<Rightarrow> int \<Rightarrow> int" where
  "rem a b = sgn a * (\<bar>a\<bar> mod \<bar>b\<bar>)"

text \<open>
  A run of the interpreter ends early in three ways: an index outside a slice or array
  (a run-time panic), an integer division by zero (a run-time panic), or \<open>os.Exit(0)\<close>.
\<close>

datatype halt = IndexOutOfRange | DivideByZero | Exit0

definition bnd :: "halt + 'a \<Rightarrow> ('a \<Rightarrow> halt + 'b) \<Rightarrow> halt + 'b" where
  "bnd m f = (case m of Inl e \<Rightarrow> Inl e | Inr x \<Rightarrow> f x)"

definition idx :: "'a list \<Rightarrow> int \<Rightarrow> halt + 'a" where
  "idx xs i = (if 0 \<le> i \<and> i < int (length xs) then Inr (xs ! nat i) else Inl IndexOutOfRange)"

definition upd :: "'a list \<Rightarrow> int \<Rightarrow> 'a \<Rightarrow> halt + 'a list" where
  "upd xs i v = (if 0 \<le> i \<and> i < int (length xs) then Inr (xs[nat i := v]) else Inl IndexOutOfRange)"

subsection \<open>Decimal text\<close>

definition digit_char :: "nat \<Rightarrow> char" where
  "digit_char d = ''0123456789'' ! d"

fun show_nat :: "nat \<Rightarrow> string" where
  "show_nat n = (if n < 10 then [digit_char n] else show_nat (n div 10) @ [digit_char (n mod 10)])"

declare show_nat.simps [simp del]

text \<open>The verb \<open>%d\<close> of package fmt on an \<open>int\<close>.\<close>

definition show_int :: "int \<Rightarrow> string" where
  "show_int i = (if i < 0 then CHR ''-'' # show_nat (nat (- i)) else show_nat (nat i))"

definition nl :: string where
  "nl = [CHR 0x0A]"

text \<open>
  \<open>strings.TrimSpace\<close>. A Go string is a sequence of bytes, read as UTF-8: the function
  removes the white space of Unicode at both ends, that is the code points U+0009 to
  U+000D, U+0020, U+0085, U+00A0, U+1680, U+2000 to U+200A, U+2028, U+2029, U+202F, U+205F
  and U+3000, each in its UTF-8 encoding. A byte sequence that is not the encoding of one
  of them (an invalid one included) is no white space.
\<close>

definition space_runes :: "string list" where
  "space_runes =
     [[CHR 0x09], [CHR 0x0A], [CHR 0x0B], [CHR 0x0C], [CHR 0x0D], [CHR 0x20],
      [CHR 0xC2, CHR 0x85], [CHR 0xC2, CHR 0xA0], [CHR 0xE1, CHR 0x9A, CHR 0x80]]
     @ map (\<lambda>b. [CHR 0xE2, CHR 0x80, b])
         [CHR 0x80, CHR 0x81, CHR 0x82, CHR 0x83, CHR 0x84, CHR 0x85, CHR 0x86, CHR 0x87, CHR 0x88,
          CHR 0x89, CHR 0x8A, CHR 0xA8, CHR 0xA9, CHR 0xAF]
     @ [[CHR 0xE2, CHR 0x81, CHR 0x9F], [CHR 0xE3, CHR 0x80, CHR 0x80]]"

definition leading_space :: "string \<Rightarrow> string option" where
  "leading_space s = find (\<lambda>e. take (length e) s = e) space_runes"

definition trailing_space :: "string \<Rightarrow> string option" where
  "trailing_space s = find (\<lambda>e. drop (length s - length e) s = e) space_runes"

function TrimLeft :: "string \<Rightarrow> string" where
  "TrimLeft s = (case leading_space s of None \<Rightarrow> s | Some e \<Rightarrow> TrimLeft (drop (length e) s))"
  by pat_completeness auto
termination
proof (relation "measure length")
  show "wf (measure length)" by simp
next
  fix s e
  assume "leading_space s = Some e"
  then have m: "e \<in> set space_runes" and t: "take (length e) s = e"
    by (auto simp add: leading_space_def find_Some_iff)
  from m have e: "e \<noteq> []" by (auto simp add: space_runes_def)
  then have "s \<noteq> []" using t by auto
  then show "(drop (length e) s, s) \<in> measure length" using e by simp
qed

function TrimRight :: "string \<Rightarrow> string" where
  "TrimRight s =
     (case trailing_space s of None \<Rightarrow> s | Some e \<Rightarrow> TrimRight (take (length s - length e) s))"
  by pat_completeness auto
termination
proof (relation "measure length")
  show "wf (measure length)" by simp
next
  fix s e
  assume "trailing_space s = Some e"
  then have m: "e \<in> set space_runes" and t: "drop (length s - length e) s = e"
    by (auto simp add: trailing_space_def find_Some_iff)
  from m have e: "e \<noteq> []" by (auto simp add: space_runes_def)
  then have "s \<noteq> []" using t by auto
  then show "(take (length s - length e) s, s) \<in> measure length" using e by simp
qed

declare TrimLeft.simps [simp del] TrimRight.simps [simp del]

definition TrimSpace :: "string \<Rightarrow> string" where
  "TrimSpace s = TrimRight (TrimLeft s)"

subsection \<open>Standard input, standard output and files\<close>

text \<open>
  The console is a sequence of input lines still to be read and the bytes written so far.
  A path names no file, a file that cannot be opened or created (with the text of the
  operating system's error), or a file, kept as the lines a \<open>bufio.Scanner\<close> yields.
  The shared random source of package math/rand is the sequence of numbers it will yield
  and the count of those already drawn.
\<close>

datatype file_entry = NoFile | Denied string | File "string list"

record World =
  stdin :: "string list"
  stdout :: string
  disk :: "string \<Rightarrow> file_entry"
  rng :: "nat \<Rightarrow> nat"
  rng_used :: nat

definition print :: "string \<Rightarrow> World \<Rightarrow> World" where
  "print t w = w\<lparr>stdout := stdout w @ t\<rparr>"

definition println :: "string \<Rightarrow> World \<Rightarrow> World" where
  "println t w = print (t @ nl) w"

text \<open>\<open>rand.Intn(n)\<close>: the next number of the source, reduced to the range from 0 to \<open>n - 1\<close>.\<close>

definition rand_Intn :: "nat \<Rightarrow> World \<Rightarrow> int \<times> World" where
  "rand_Intn n w = (int (rng w (rng_used w) mod n), w\<lparr>rng_used := Suc (rng_used w)\<rparr>)"

text \<open>\<open>scanner.Scan(); scanner.Text()\<close> on standard input: at end of input the text is empty.\<close>

definition read_line :: "World \<Rightarrow> string \<times> World" where
  "read_line w = (case stdin w of [] \<Rightarrow> ([], w) | l # ls \<Rightarrow> (l, w\<lparr>stdin := ls\<rparr>))"

section \<open>The data model of main.go\<close>

definition CARRIED :: int where "CARRIED = 255"
definition DESTROYED :: int where "DESTROYED = 0"
definition LIGHT_SOURCE :: int where "LIGHT_SOURCE = 9"
definition DARKBIT :: int where "DARKBIT = 15"
definition LIGHTOUTBIT :: int where "LIGHTOUTBIT = 16"

record GameHeader =
  TextStorageBytes :: int
  NumItems :: int
  NumActions :: int
  NumWords :: int
  NumRooms :: int
  MaxCarry :: int
  PlayerRoom :: int
  Treasures :: int
  WordLength :: int
  LightTime :: int
  NumMessages :: int
  TreasureRoom :: int
  AdventureVersion :: int
  AdventureNumber :: int

record Room =
  Exits :: "int list"
  RoomDescription :: string

record Item =
  Description :: string
  Location :: int
  OriginalLocation :: int
  AutoGet :: string

record Action =
  Verb :: int
  Noun :: int
  Conditions :: "int list"
  Commands :: "int list"

record VocabWord =
  WordText :: string
  IsSynonym :: bool
  WordType :: string

record GameState =
  Header :: GameHeader
  Rooms :: "Room list"
  Items :: "Item list"
  Actions :: "Action list"
  Words :: "VocabWord list"
  Messages :: "string list"
  ActionTitles :: "string list"
  CurrentRoom :: int
  ItemLocations :: "int list"
  BitFlags :: "32 word"
  Counter :: int
  AltCounters :: "int list"
  AltRooms :: "int list"
  ContinueFlag :: bool
  DisplayedRoom :: bool
  Debug :: bool
  CurrentAction :: int

text \<open>
  The fixed-size arrays of the source (\<open>[5]int\<close>, \<open>[2]int\<close>, \<open>[9]int\<close>, \<open>[6]int\<close>) are
  lists; \<open>arrays_ok\<close> says that they have the length their Go type gives them, and that
  the item table has the \<open>NumItems + 1\<close> entries that \<open>LoadGameData\<close> allocates.
\<close>

definition action_ok :: "Action \<Rightarrow> bool" where
  "action_ok a = (length (Conditions a) = 5 \<and> length (Commands a) = 2)"

definition arrays_ok :: "GameState \<Rightarrow> bool" where
  "arrays_ok s = (length (AltCounters s) = 9 \<and> length (AltRooms s) = 6
     \<and> list_all action_ok (Actions s)
     \<and> int (length (ItemLocations s)) = NumItems (Header s) + 1
     \<and> length (Items s) = length (ItemLocations s))"

section \<open>Picking up and dropping\<close>

text \<open>\<open>getItemDescription\<close>: the description without asterisks, cut at the first slash.\<close>

definition getItemDescription :: "GameState \<Rightarrow> int \<Rightarrow> halt + string" where
  "getItemDescription s itemNumber =
     (if itemNumber < 0 \<or> itemNumber > NumItems (Header s) then Inr ''unknown item''
      else bnd (idx (Items s) itemNumber) (\<lambda>it.
        Inr (TrimSpace (takeWhile (\<lambda>c. c \<noteq> CHR ''/'') (filter (\<lambda>c. c \<noteq> CHR ''*'') (Description it))))))"

text \<open>The loop that counts the carried items, over the indices of \<open>ItemLocations\<close>.\<close>

definition carried_count :: "GameState \<Rightarrow> int" where
  "carried_count s =
     int (length (filter (\<lambda>i. int i \<le> NumItems (Header s) \<and> ItemLocations s ! i = CARRIED)
       [0 ..< length (ItemLocations s)]))"

definition GetItem :: "GameState \<times> World \<Rightarrow> int \<Rightarrow> halt + GameState \<times> World" where
  "GetItem sw itemNumber =
     (let s = fst sw; w = snd sw in
      if itemNumber \<le> 0 \<or> itemNumber > NumItems (Header s) then
        Inr (s, println ''I don't see that here.'' w)
      else bnd (idx (ItemLocations s) itemNumber) (\<lambda>loc.
        if loc \<noteq> CurrentRoom s then
          Inr (s, (if Debug s
                   then print (''[DEBUG] Item '' @ show_int itemNumber @ '' is in room '' @ show_int loc
                          @ '', not current room '' @ show_int (CurrentRoom s) @ nl)
                   else id) (println ''I don't see that here.'' w))
        else if carried_count s \<ge> MaxCarry (Header s) then
          Inr (s, println ''I'm carrying too much already.'' w)
        else bnd (upd (ItemLocations s) itemNumber CARRIED) (\<lambda>locs.
          let s' = s\<lparr>ItemLocations := locs\<rparr> in
          bnd (getItemDescription s' itemNumber) (\<lambda>d.
            Inr (s', (if Debug s'
                      then print (''[DEBUG] Picked up item '' @ show_int itemNumber @ '', now in inventory'' @ nl)
                      else id) (print (''I'm now carrying the '' @ d @ nl) w))))))"

definition DropItem :: "GameState \<times> World \<Rightarrow> int \<Rightarrow> halt + GameState \<times> World" where
  "DropItem sw itemNumber =
     (let s = fst sw; w = snd sw in
      if itemNumber \<le> 0 \<or> itemNumber > NumItems (Header s) then
        Inr (s, println ''I don't have that.'' w)
      else bnd (idx (ItemLocations s) itemNumber) (\<lambda>loc.
        if loc \<noteq> CARRIED then
          Inr (s, (if Debug s
                   then print (''[DEBUG] Item '' @ show_int itemNumber @ '' is not carried, it's in room ''
                          @ show_int loc @ nl)
                   else id) (println ''I don't have that.'' w))
        else bnd (upd (ItemLocations s) itemNumber (CurrentRoom s)) (\<lambda>locs.
          let s' = s\<lparr>ItemLocations := locs\<rparr> in
          bnd (getItemDescription s' itemNumber) (\<lambda>d.
            Inr (s', (if Debug s'
                      then print (''[DEBUG] Dropped item '' @ show_int itemNumber @ '', now in room ''
                             @ show_int (CurrentRoom s') @ nl)
                      else id) (print (''I've dropped the '' @ d @ nl) w))))))"

section \<open>Conditions\<close>

text \<open>
  \<open>1 << uint(parameter)\<close> at type \<open>uint32\<close>: a negative parameter converts to a shift
  count of at least \<open>2 ^ 63\<close>, and every count of 32 or more shifts the bit out.
\<close>

definition shl1 :: "int \<Rightarrow> 32 word" where
  "shl1 p = (if 0 \<le> p then push_bit (nat p) 1 else 0)"

definition carrying_any :: "GameState \<Rightarrow> bool" where
  "carrying_any s =
     list_ex (\<lambda>i. int i \<le> NumItems (Header s) \<and> ItemLocations s ! i = CARRIED)
       [0 ..< length (ItemLocations s)]"

definition EvaluateCondition :: "GameState \<times> World \<Rightarrow> int \<Rightarrow> int \<Rightarrow> halt + bool \<times> World" where
  "EvaluateCondition sw code parameter =
     (let s = fst sw; w = snd sw in
      if code = 0 then Inr (True, w)
      else if code = 1 then bnd (idx (ItemLocations s) parameter) (\<lambda>loc. Inr (loc = CARRIED, w))
      else if code = 2 then bnd (idx (ItemLocations s) parameter) (\<lambda>loc. Inr (loc = CurrentRoom s, w))
      else if code = 3 then
        bnd (idx (ItemLocations s) parameter) (\<lambda>loc. Inr (loc = CARRIED \<or> loc = CurrentRoom s, w))
      else if code = 4 then Inr (CurrentRoom s = parameter, w)
      else if code = 5 then bnd (idx (ItemLocations s) parameter) (\<lambda>loc. Inr (loc \<noteq> CurrentRoom s, w))
      else if code = 6 then bnd (idx (ItemLocations s) parameter) (\<lambda>loc. Inr (loc \<noteq> CARRIED, w))
      else if code = 7 then Inr (CurrentRoom s \<noteq> parameter, w)
      else if code = 8 then Inr (BitFlags s AND shl1 parameter \<noteq> 0, w)
      else if code = 9 then Inr (BitFlags s AND shl1 parameter = 0, w)
      else if code = 10 then Inr (carrying_any s, w)
      else if code = 11 then Inr (\<not> carrying_any s, w)
      else if code = 12 then
        bnd (idx (ItemLocations s) parameter) (\<lambda>loc. Inr (loc \<noteq> CARRIED \<and> loc \<noteq> CurrentRoom s, w))
      else if code = 13 then bnd (idx (ItemLocations s) parameter) (\<lambda>loc. Inr (loc \<noteq> DESTROYED, w))
      else if code = 14 then bnd (idx (ItemLocations s) parameter) (\<lambda>loc. Inr (loc = DESTROYED, w))
      else if code = 15 then Inr (Counter s \<le> parameter, w)
      else if code = 16 then Inr (Counter s > parameter, w)
      else if code = 17 then
        bnd (idx (ItemLocations s) parameter) (\<lambda>loc.
        bnd (idx (Items s) parameter) (\<lambda>it. Inr (loc = OriginalLocation it, w)))
      else if code = 18 then
        bnd (idx (ItemLocations s) parameter) (\<lambda>loc.
        bnd (idx (Items s) parameter) (\<lambda>it. Inr (loc \<noteq> OriginalLocation it, w)))
      else if code = 19 then Inr (Counter s = parameter, w)
      else Inr (False, print (''Unknown condition code: '' @ show_int code @ nl) w))"

text \<open>The loop of \<open>CheckConditions\<close> over the five raw condition values of the action.\<close>

fun check_loop :: "GameState \<Rightarrow> int list \<Rightarrow> World \<Rightarrow> halt + bool \<times> World" where
  "check_loop s [] w = Inr (True, w)"
| "check_loop s (encodedCondition # rest) w =
     (if encodedCondition = 0 then check_loop s rest w
      else bnd (EvaluateCondition (s, w) (rem encodedCondition 20) (quo encodedCondition 20))
             (\<lambda>r. if \<not> fst r then Inr (False, snd r) else check_loop s rest (snd r)))"

definition CheckConditions :: "GameState \<times> World \<Rightarrow> int \<Rightarrow> halt + bool \<times> World" where
  "CheckConditions sw actionIndex =
     bnd (idx (Actions (fst sw)) actionIndex) (\<lambda>action.
       check_loop (fst sw) (Conditions action) (snd sw))"

section \<open>Score, inventory and saved games\<close>

fun score_loop :: "GameState \<Rightarrow> nat list \<Rightarrow> int \<Rightarrow> halt + int" where
  "score_loop s [] treasureCount = Inr treasureCount"
| "score_loop s (i # rest) treasureCount =
     (if int i \<le> NumItems (Header s) \<and> ItemLocations s ! i = TreasureRoom (Header s) then
        bnd (idx (Items s) (int i)) (\<lambda>it.
          score_loop s rest (if CHR ''*'' \<in> set (Description it) then treasureCount + 1 else treasureCount))
      else score_loop s rest treasureCount)"

definition DisplayScore :: "GameState \<times> World \<Rightarrow> halt + GameState \<times> World" where
  "DisplayScore sw =
     (let s = fst sw; w = snd sw; totalTreasures = Treasures (Header s) in
      bnd (score_loop s [0 ..< length (ItemLocations s)] 0) (\<lambda>treasureCount.
        let w1 = print (''I've stored '' @ show_int treasureCount @ '' treasures.'' @ nl) w in
        if totalTreasures = 0 then Inl DivideByZero
        else
          let w2 = print (''On a scale of 0 to 100, that rates a ''
                     @ show_int (wrap64 (quo (wrap64 (treasureCount * 100)) totalTreasures)) @ ''.'' @ nl) w1
          in Inr (s, if treasureCount = totalTreasures
                     then println ''Well done! You've found all the treasures!'' w2 else w2)))"

fun inventory_loop :: "GameState \<Rightarrow> nat list \<Rightarrow> int \<times> World \<Rightarrow> halt + int \<times> World" where
  "inventory_loop s [] cw = Inr cw"
| "inventory_loop s (i # rest) cw =
     (if int i \<le> NumItems (Header s) \<and> ItemLocations s ! i = CARRIED then
        bnd (getItemDescription s (int i)) (\<lambda>d.
          inventory_loop s rest (fst cw + 1, print (''- '' @ d @ nl) (snd cw)))
      else inventory_loop s rest cw)"

definition DisplayInventory :: "GameState \<times> World \<Rightarrow> halt + GameState \<times> World" where
  "DisplayInventory sw =
     (let s = fst sw; w = snd sw in
      bnd (inventory_loop s [0 ..< length (ItemLocations s)] (0, println ''I'm carrying:'' w)) (\<lambda>cw.
        Inr (s, if fst cw = 0 then println ''Nothing.'' (snd cw) else snd cw)))"

definition default_name :: "string \<Rightarrow> string" where
  "default_name filename = (if filename = [] then ''adventure.sav'' else filename)"

fun traverse :: "('a \<Rightarrow> halt + 'b) \<Rightarrow> 'a list \<Rightarrow> halt + 'b list" where
  "traverse f [] = Inr []"
| "traverse f (x # xs) = bnd (f x) (\<lambda>y. bnd (traverse f xs) (\<lambda>ys. Inr (y # ys)))"

text \<open>The lines \<open>SaveGame\<close> writes, in the order it writes them.\<close>

definition save_lines :: "GameState \<Rightarrow> halt + string list" where
  "save_lines s =
     bnd (traverse (\<lambda>i. bnd (idx (ItemLocations s) i) (\<lambda>loc. Inr (show_int loc)))
            [0 .. NumItems (Header s)]) (\<lambda>itemLines.
       Inr ([show_int (AdventureNumber (Header s)),
             show_int (CurrentRoom s),
             show_int (Counter s),
             show_nat (unat (BitFlags s)),
             show_int (AltCounters s ! 8)]
            @ map (\<lambda>i. show_int (AltRooms s ! i)) [0 ..< 6]
            @ map (\<lambda>i. show_int (AltCounters s ! i)) [0 ..< 8]
            @ itemLines))"

definition SaveGame :: "GameState \<times> World \<Rightarrow> halt + GameState \<times> World" where
  "SaveGame sw =
     (let s = fst sw;
          r = read_line (print ''Enter filename to save: '' (snd sw));
          filename = default_name (fst r); w = snd r in
      case disk w filename of
        Denied err \<Rightarrow> Inr (s, print (''Error creating save file: '' @ err @ nl) w)
      | _ \<Rightarrow> bnd (save_lines s) (\<lambda>ls.
               Inr (s, println ''Game saved.'' (w\<lparr>disk := (disk w)(filename := File ls)\<rparr>))))"

subsection \<open>Reading numbers back\<close>

definition digit_val :: "char \<Rightarrow> nat option" where
  "digit_val c = (let n = (of_char c :: nat) in if 48 \<le> n \<and> n \<le> 57 then Some (n - 48) else None)"

text \<open>
  The digit loop of \<open>strconv.ParseUint\<close> in base 10: a character that is no digit is a
  syntax error; a value that leaves the range is a range error, reported at the digit where
  it happens (the rest of the text is not looked at).
\<close>

datatype parsed = Parsed nat | SyntaxError | RangeError

fun ParseUint_loop :: "nat \<Rightarrow> string \<Rightarrow> nat \<Rightarrow> parsed" where
  "ParseUint_loop maxVal [] n = Parsed n"
| "ParseUint_loop maxVal (c # cs) n =
     (case digit_val c of
        None \<Rightarrow> SyntaxError
      | Some d \<Rightarrow>
          if n \<ge> (2 ^ 64 - 1) div 10 + 1 then RangeError
          else if n * 10 + d > maxVal then RangeError
          else ParseUint_loop maxVal cs (n * 10 + d))"

text \<open>
  \<open>strconv.Atoi\<close> with its error discarded, as \<open>LoadGame\<close> calls it: 0 for text that is
  not a decimal number, the nearest 64-bit value for a number out of range. (The fast path
  of \<open>Atoi\<close> for texts of fewer than 19 characters computes the same value.)
\<close>

definition Atoi :: "string \<Rightarrow> int" where
  "Atoi t =
     (let neg = (t \<noteq> [] \<and> hd t = CHR ''-'');
          body = (if t \<noteq> [] \<and> (hd t = CHR ''-'' \<or> hd t = CHR ''+'') then tl t else t) in
      if body = [] then 0
      else case ParseUint_loop (2 ^ 64 - 1) body 0 of
        SyntaxError \<Rightarrow> 0
      | RangeError \<Rightarrow> (if neg then - (2 ^ 63) else 2 ^ 63 - 1)
      | Parsed n \<Rightarrow>
          if neg then (if int n > 2 ^ 63 then - (2 ^ 63) else - int n)
          else (if int n \<ge> 2 ^ 63 then 2 ^ 63 - 1 else int n))"

text \<open>\<open>uint32(flags)\<close> for \<open>flags, _ := strconv.ParseUint(text, 10, 32)\<close>.\<close>

definition ParseUint32 :: "string \<Rightarrow> 32 word" where
  "ParseUint32 t =
     (if t = [] then 0
      else case ParseUint_loop (2 ^ 32 - 1) t 0 of
        SyntaxError \<Rightarrow> 0
      | RangeError \<Rightarrow> word_of_nat (2 ^ 32 - 1)
      | Parsed n \<Rightarrow> word_of_nat n)"

text \<open>
  The three reading loops of \<open>LoadGame\<close>: \<open>n\<close> more lines are wanted for the entries
  from \<open>i\<close> on; the result says whether every one of them was there.
\<close>

fun read_into :: "int list \<Rightarrow> int \<Rightarrow> nat \<Rightarrow> string list \<Rightarrow> halt + bool \<times> int list \<times> string list" where
  "read_into arr i 0 ls = Inr (True, arr, ls)"
| "read_into arr i (Suc n) [] = Inr (False, arr, [])"
| "read_into arr i (Suc n) (l # ls) = bnd (upd arr i (Atoi l)) (\<lambda>arr'. read_into arr' (i + 1) n ls)"

definition read_failed :: "GameState \<Rightarrow> World \<Rightarrow> halt + GameState \<times> World" where
  "read_failed s w = Inr (s, println ''Error reading save file.'' w)"

definition load_lines :: "GameState \<Rightarrow> World \<Rightarrow> string list \<Rightarrow> halt + GameState \<times> World" where
  "load_lines s w lines =
     (case lines of
        [] \<Rightarrow> read_failed s w
      | l0 # r0 \<Rightarrow>
        if Atoi l0 \<noteq> AdventureNumber (Header s) then
          Inr (s, println ''This save file is for a different adventure.'' w)
        else (case r0 of
          [] \<Rightarrow> read_failed s w
        | l1 # r1 \<Rightarrow> let s1 = s\<lparr>CurrentRoom := Atoi l1\<rparr> in (case r1 of
          [] \<Rightarrow> read_failed s1 w
        | l2 # r2 \<Rightarrow> let s2 = s1\<lparr>Counter := Atoi l2\<rparr> in (case r2 of
          [] \<Rightarrow> read_failed s2 w
        | l3 # r3 \<Rightarrow> let s3 = s2\<lparr>BitFlags := ParseUint32 l3\<rparr> in (case r3 of
          [] \<Rightarrow> read_failed s3 w
        | l4 # r4 \<Rightarrow> let s4 = s3\<lparr>AltCounters := (AltCounters s3)[8 := Atoi l4]\<rparr> in
            bnd (read_into (AltRooms s4) 0 6 r4) (\<lambda>a.
              let s5 = s4\<lparr>AltRooms := fst (snd a)\<rparr> in
              if \<not> fst a then read_failed s5 w
              else bnd (read_into (AltCounters s5) 0 8 (snd (snd a))) (\<lambda>b.
                let s6 = s5\<lparr>AltCounters := fst (snd b)\<rparr> in
                if \<not> fst b then read_failed s6 w
                else bnd (read_into (ItemLocations s6) 0 (nat (NumItems (Header s6) + 1)) (snd (snd b))) (\<lambda>c.
                  let s7 = s6\<lparr>ItemLocations := fst (snd c)\<rparr> in
                  if \<not> fst c then read_failed s7 w
                  else Inr (s7\<lparr>DisplayedRoom := False\<rparr>, println ''Game loaded.'' w)))))))))"

definition LoadGame :: "GameState \<times> World \<Rightarrow> halt + GameState \<times> World" where
  "LoadGame sw =
     (let s = fst sw;
          r = read_line (print ''Enter filename to load: '' (snd sw));
          filename = default_name (fst r); w = snd r in
      case disk w filename of
        NoFile \<Rightarrow>
          Inr (s, print (''Error opening save file: open '' @ filename
                         @ '': no such file or directory'' @ nl) w)
      | Denied err \<Rightarrow> Inr (s, print (''Error opening save file: '' @ err @ nl) w)
      | File lines \<Rightarrow> load_lines s w lines)"

section \<open>Commands\<close>

text \<open>
  \<open>ExecuteCommand\<close>. The parameter is read from the condition slot \<open>cmdPosition\<close> of the
  action \<open>CurrentAction\<close>; the opcodes with two operands read the slot after it.
\<close>

definition ExecuteCommand :: "GameState \<times> World \<Rightarrow> int \<Rightarrow> int \<Rightarrow> halt + GameState \<times> World" where
  "ExecuteCommand sw cmd cmdPosition =
     (let s = fst sw; w = snd sw in
      bnd (if cmdPosition < 5 then
             bnd (idx (Actions s) (CurrentAction s)) (\<lambda>a.
             bnd (idx (Conditions a) cmdPosition) (\<lambda>condition. Inr (quo condition 20)))
           else Inr 0) (\<lambda>parameter.
      if cmd \<ge> 1 \<and> cmd \<le> 51 then
        bnd (idx (Messages s) cmd) (\<lambda>m. Inr (s, println m w))
      else if cmd \<ge> 102 \<and> cmd \<le> 149 then
        bnd (idx (Messages s) (cmd - 50)) (\<lambda>m. Inr (s, println m w))
      else if cmd = 52 then GetItem (s, w) parameter
      else if cmd = 53 then DropItem (s, w) parameter
      else if cmd = 54 then Inr (s\<lparr>CurrentRoom := parameter, DisplayedRoom := False\<rparr>, w)
      else if cmd = 55 \<or> cmd = 59 then
        bnd (upd (ItemLocations s) parameter DESTROYED) (\<lambda>locs. Inr (s\<lparr>ItemLocations := locs\<rparr>, w))
      else if cmd = 56 then Inr (s\<lparr>BitFlags := BitFlags s OR shl1 DARKBIT\<rparr>, w)
      else if cmd = 57 then Inr (s\<lparr>BitFlags := BitFlags s AND NOT (shl1 DARKBIT)\<rparr>, w)
      else if cmd = 58 then Inr (s\<lparr>BitFlags := BitFlags s OR shl1 parameter\<rparr>, w)
      else if cmd = 60 then Inr (s\<lparr>BitFlags := BitFlags s AND NOT (shl1 parameter)\<rparr>, w)
      else if cmd = 61 then Inr (s\<lparr>CurrentRoom := NumRooms (Header s), DisplayedRoom := False\<rparr>, w)
      else if cmd = 62 then
        (if cmdPosition < 5 then
           bnd (idx (Actions s) (CurrentAction s)) (\<lambda>a.
           bnd (idx (Conditions a) (cmdPosition + 1)) (\<lambda>nextCond.
           bnd (upd (ItemLocations s) parameter (quo nextCond 20)) (\<lambda>locs.
             Inr (s\<lparr>ItemLocations := locs\<rparr>, w))))
         else Inr (s, w))
      else if cmd = 63 then Inl Exit0
      else if cmd = 64 \<or> cmd = 76 then Inr (s\<lparr>DisplayedRoom := False\<rparr>, w)
      else if cmd = 65 then DisplayScore (s, w)
      else if cmd = 66 then DisplayInventory (s, w)
      else if cmd = 67 then Inr (s\<lparr>BitFlags := BitFlags s OR shl1 0\<rparr>, w)
      else if cmd = 68 then Inr (s\<lparr>BitFlags := BitFlags s AND NOT (shl1 0)\<rparr>, w)
      else if cmd = 69 then
        (let s1 = s\<lparr>AltCounters := (AltCounters s)[8 := LightTime (Header s)],
                     BitFlags := BitFlags s AND NOT (shl1 LIGHTOUTBIT)\<rparr> in
         bnd (idx (ItemLocations s1) LIGHT_SOURCE) (\<lambda>loc.
           if loc \<noteq> CARRIED then
             bnd (upd (ItemLocations s1) LIGHT_SOURCE CARRIED) (\<lambda>locs. Inr (s1\<lparr>ItemLocations := locs\<rparr>, w))
           else Inr (s1, w)))
      else if cmd = 70 then Inr (s, print [CHR 0x1B, CHR ''['', CHR ''H'', CHR 0x1B, CHR ''['', CHR ''2'', CHR ''J''] w)
      else if cmd = 71 then SaveGame (s, w)
      else if cmd = 72 then
        (if cmdPosition < 4 then
           bnd (idx (Actions s) (CurrentAction s)) (\<lambda>a.
           bnd (idx (Conditions a) (cmdPosition + 1)) (\<lambda>nextCond.
             let item1 = parameter; item2 = quo nextCond 20 in
             bnd (idx (ItemLocations s) item2) (\<lambda>loc2.
             bnd (idx (ItemLocations s) item1) (\<lambda>loc1.
             bnd (upd (ItemLocations s) item1 loc2) (\<lambda>locs.
             bnd (upd locs item2 loc1) (\<lambda>locs'. Inr (s\<lparr>ItemLocations := locs'\<rparr>, w)))))))
         else Inr (s, w))
      else if cmd = 73 then Inr (s\<lparr>ContinueFlag := True\<rparr>, w)
      else if cmd = 74 then
        bnd (upd (ItemLocations s) parameter CARRIED) (\<lambda>locs. Inr (s\<lparr>ItemLocations := locs\<rparr>, w))
      else if cmd = 75 then
        (if cmdPosition < 4 then
           bnd (idx (Actions s) (CurrentAction s)) (\<lambda>a.
           bnd (idx (Conditions a) (cmdPosition + 1)) (\<lambda>nextCond.
             let item1 = parameter; item2 = quo nextCond 20 in
             bnd (idx (ItemLocations s) item2) (\<lambda>loc2.
             bnd (upd (ItemLocations s) item1 loc2) (\<lambda>locs. Inr (s\<lparr>ItemLocations := locs\<rparr>, w)))))
         else Inr (s, w))
      else if cmd = 77 then Inr (s\<lparr>Counter := wrap64 (Counter s - 1)\<rparr>, w)
      else if cmd = 78 then Inr (s, print (''Counter = '' @ show_int (Counter s) @ nl) w)
      else if cmd = 79 then Inr (s\<lparr>Counter := parameter\<rparr>, w)
      else if cmd = 80 then
        Inr (s\<lparr>CurrentRoom := AltRooms s ! 0, AltRooms := (AltRooms s)[0 := CurrentRoom s],
               DisplayedRoom := False\<rparr>, w)
      else if cmd = 81 then
        bnd (idx (AltCounters s) parameter) (\<lambda>alt.
        bnd (upd (AltCounters s) parameter (Counter s)) (\<lambda>alts.
          Inr (s\<lparr>Counter := alt, AltCounters := alts\<rparr>, w)))
      else if cmd = 82 then Inr (s\<lparr>Counter := wrap64 (Counter s + parameter)\<rparr>, w)
      else if cmd = 83 then
        (let c = wrap64 (Counter s - parameter) in
         Inr (s\<lparr>Counter := (if c < - 1 then - 1 else c)\<rparr>, w))
      else if cmd = 84 then Inr (s, w)
      else if cmd = 85 then Inr (s, w)
      else if cmd = 86 then Inr (s, println [] w)
      else if cmd = 87 then
        bnd (idx (AltRooms s) parameter) (\<lambda>alt.
        bnd (upd (AltRooms s) parameter (CurrentRoom s)) (\<lambda>alts.
          Inr (s\<lparr>CurrentRoom := alt, AltRooms := alts, DisplayedRoom := False\<rparr>, w)))
      else if cmd = 88 then Inr (s, w)
      else Inr (s, w)))"

text \<open>
  The loop of \<open>ExecuteCommands\<close> over the two command slots: the first command of a pair
  runs at position 0, the second command of pair \<open>i\<close> at position \<open>i + 1\<close>.
\<close>

fun command_loop :: "(nat \<times> int) list \<Rightarrow> GameState \<times> World \<Rightarrow> halt + GameState \<times> World" where
  "command_loop [] sw = Inr sw"
| "command_loop ((i, cmd) # rest) sw =
     (if cmd = 0 then command_loop rest sw
      else bnd (ExecuteCommand sw (quo cmd 150) 0) (\<lambda>sw1.
           bnd (ExecuteCommand sw1 (rem cmd 150) (int i + 1)) (\<lambda>sw2.
           command_loop rest sw2)))"

definition ExecuteCommands :: "GameState \<times> World \<Rightarrow> int \<Rightarrow> halt + GameState \<times> World" where
  "ExecuteCommands sw actionIndex =
     (let s = (fst sw)\<lparr>CurrentAction := actionIndex\<rparr> in
      bnd (idx (Actions s) actionIndex) (\<lambda>action.
      bnd (command_loop (enumerate 0 (Commands action)) (s, snd sw)) (\<lambda>sw'.
        if Debug (fst sw') then
          bnd (if actionIndex < int (length (ActionTitles (fst sw')))
               then idx (ActionTitles (fst sw')) actionIndex else Inr ''Unknown'') (\<lambda>title.
            Inr (fst sw', print (''[DEBUG] Executed action '' @ show_int actionIndex @ '': '' @ title @ nl)
                            (snd sw')))
        else Inr sw')))"

section \<open>The dispatcher for a player's verb and noun\<close>

fun exact_loop :: "int \<Rightarrow> int \<Rightarrow> (nat \<times> Action) list \<Rightarrow> bool \<Rightarrow> GameState \<times> World
    \<Rightarrow> halt + bool \<times> GameState \<times> World" where
  "exact_loop verb noun [] found sw = Inr (found, sw)"
| "exact_loop verb noun ((i, action) # rest) found sw =
     (if Verb action = verb \<and> Noun action = noun then
        bnd (CheckConditions sw (int i)) (\<lambda>r.
          if fst r then
            bnd (ExecuteCommands (fst sw, snd r) (int i)) (\<lambda>sw'.
              if \<not> ContinueFlag (fst sw') then Inr (True, sw')
              else exact_loop verb noun rest True sw')
          else exact_loop verb noun rest found (fst sw, snd r))
      else exact_loop verb noun rest found sw)"

definition ProcessExactAction :: "GameState \<times> World \<Rightarrow> int \<Rightarrow> int \<Rightarrow> halt + bool \<times> GameState \<times> World" where
  "ProcessExactAction sw verb noun = exact_loop verb noun (enumerate 0 (Actions (fst sw))) False sw"

definition ProcessActionsWithVerb :: "GameState \<times> World \<Rightarrow> int \<Rightarrow> int \<Rightarrow> halt + GameState \<times> World" where
  "ProcessActionsWithVerb sw verb noun =
     bnd (ProcessExactAction sw verb noun) (\<lambda>r.
       if fst r then Inr (snd r)
       else bnd (if noun \<noteq> 0 then ProcessExactAction (snd r) verb 0 else Inr (False, snd r)) (\<lambda>r2.
         if fst r2 then Inr (snd r2)
         else if verb = 10 then GetItem (snd r2) noun
         else if verb = 18 then DropItem (snd r2) noun
         else Inr (fst (snd r2), println ''I don't understand how to do that.'' (snd (snd r2)))))"

section \<open>The automatic pass\<close>

text \<open>
  The inner loop of \<open>ProcessAutomaticActions\<close> over the action table: actions with verb 0,
  a noun above 0 being a chance in percent; the loop is left as soon as a command has set
  the continue flag.
\<close>

fun automatic_scan :: "(nat \<times> Action) list \<Rightarrow> GameState \<times> World \<Rightarrow> halt + GameState \<times> World" where
  "automatic_scan [] sw = Inr sw"
| "automatic_scan ((i, action) # rest) sw =
     (if Verb action \<noteq> 0 then automatic_scan rest sw
      else
        let r = (if Noun action > 0 then rand_Intn 100 (snd sw) else (0, snd sw));
            chance = fst r + 1; w = snd r in
        if Noun action > 0 \<and> chance > Noun action then automatic_scan rest (fst sw, w)
        else bnd (CheckConditions (fst sw, w) (int i)) (\<lambda>c.
          if fst c then
            bnd (ExecuteCommands (fst sw, snd c) (int i)) (\<lambda>sw'.
              if ContinueFlag (fst sw') then Inr sw' else automatic_scan rest sw')
          else automatic_scan rest (fst sw, snd c)))"

text \<open>
  The outer loop runs as long as the flag is set again, from the first action each time.
  It need not end: \<open>fuel\<close> bounds the number of its tests, and \<open>None\<close> says that the
  bound was reached.
\<close>

fun automatic_loop :: "nat \<Rightarrow> GameState \<times> World \<Rightarrow> (halt + GameState \<times> World) option" where
  "automatic_loop 0 sw = None"
| "automatic_loop (Suc fuel) sw =
     (if ContinueFlag (fst sw) then
        (let s = (fst sw)\<lparr>ContinueFlag := False\<rparr> in
         case automatic_scan (enumerate 0 (Actions s)) (s, snd sw) of
           Inl e \<Rightarrow> Some (Inl e)
         | Inr sw' \<Rightarrow> automatic_loop fuel sw')
      else Some (Inr sw))"

definition ProcessAutomaticActions :: "nat \<Rightarrow> GameState \<times> World \<Rightarrow> (halt + GameState \<times> World) option" where
  "ProcessAutomaticActions fuel sw = automatic_loop fuel ((fst sw)\<lparr>ContinueFlag := True\<rparr>, snd sw)"

section \<open>The light source\<close>

definition IsDark :: "GameState \<Rightarrow> halt + bool" where
  "IsDark s =
     (if BitFlags s AND shl1 DARKBIT \<noteq> 0 then
        bnd (idx (ItemLocations s) LIGHT_SOURCE) (\<lambda>loc. Inr (loc \<noteq> CARRIED \<and> loc \<noteq> CurrentRoom s))
      else Inr False)"

definition UpdateLightSource :: "GameState \<times> World \<Rightarrow> halt + GameState \<times> World" where
  "UpdateLightSource sw =
     (let s = fst sw; w = snd sw in
      bnd (idx (ItemLocations s) LIGHT_SOURCE) (\<lambda>loc.
      bnd (if loc = CARRIED then IsDark s else Inr True) (\<lambda>dark.
        if loc = CARRIED \<and> \<not> dark then
          (let s1 = s\<lparr>AltCounters := (AltCounters s)[8 := wrap64 (AltCounters s ! 8 - 1)]\<rparr> in
           if AltCounters s1 ! 8 \<le> 0 then
             bnd (upd (ItemLocations s1) LIGHT_SOURCE DESTROYED) (\<lambda>locs.
               Inr (s1\<lparr>BitFlags := BitFlags s1 OR shl1 LIGHTOUTBIT, ItemLocations := locs\<rparr>,
                    println ''Light has run out!'' w))
           else if AltCounters s1 ! 8 \<le> 10 then Inr (s1, println ''Light is getting dim.'' w)
           else Inr (s1, w))
        else Inr (s, w))))"

text \<open>The light update of \<open>n\<close> successive turns.\<close>

fun light_turns :: "nat \<Rightarrow> GameState \<times> World \<Rightarrow> halt + GameState \<times> World" where
  "light_turns 0 sw = Inr sw"
| "light_turns (Suc n) sw = bnd (UpdateLightSource sw) (light_turns n)"

definition lightout :: "GameState \<Rightarrow> bool" where
  "lightout s = (BitFlags s AND shl1 LIGHTOUTBIT \<noteq> 0)"

section \<open>A small adventure\<close>

text \<open>
  A game with eleven items (item 9 is the light source), three carried items, a light time
  of 125 turns and the action table A, B, C: A (verb 5, noun 0) issues CONT and shows
  message 1, B (verb 0, noun 0) asks for room 7 and would show message 3, C (verb 0, noun 0)
  has no condition and shows message 2.
\<close>

definition demo_header :: GameHeader where
  "demo_header = \<lparr>TextStorageBytes = 0, NumItems = 10, NumActions = 2, NumWords = 0, NumRooms = 3,
     MaxCarry = 3, PlayerRoom = 1, Treasures = 1, WordLength = 3, LightTime = 125,
     NumMessages = 101, TreasureRoom = 2, AdventureVersion = 416, AdventureNumber = 1\<rparr>"

definition demo_locations :: "int list" where
  "demo_locations = [0, 1, 1, 255, 255, 2, 0, 0, 0, 255, 3]"

definition demo_actions :: "Action list" where
  "demo_actions =
     [\<lparr>Verb = 5, Noun = 0, Conditions = [0, 0, 0, 0, 0], Commands = [10951, 0]\<rparr>,
      \<lparr>Verb = 0, Noun = 0, Conditions = [144, 0, 0, 0, 0], Commands = [450, 0]\<rparr>,
      \<lparr>Verb = 0, Noun = 0, Conditions = [0, 0, 0, 0, 0], Commands = [300, 0]\<rparr>]"

definition demo :: GameState where
  "demo = \<lparr>Header = demo_header,
     Rooms = replicate 4 \<lparr>Exits = [0, 0, 0, 0, 0, 0], RoomDescription = ''room''\<rparr>,
     Items = map (\<lambda>l. \<lparr>Description = ''thing'', Location = l, OriginalLocation = l, AutoGet = []\<rparr>)
               demo_locations,
     Actions = demo_actions,
     Words = [],
     Messages = map (\<lambda>i. ''message '' @ show_nat i) [0 ..< 102],
     ActionTitles = [],
     CurrentRoom = 1,
     ItemLocations = demo_locations,
     BitFlags = 0,
     Counter = 0,
     AltCounters = [0, 0, 0, 0, 0, 0, 0, 0, 125],
     AltRooms = [0, 0, 0, 0, 0, 0],
     ContinueFlag = False,
     DisplayedRoom = False,
     Debug = False,
     CurrentAction = 0\<rparr>"

definition console :: World where
  "console = \<lparr>stdin = [], stdout = [], disk = (\<lambda>path. NoFile), rng = (\<lambda>i. 0), rng_used = 0\<rparr>"

text \<open>
  The same game with one action for verb 1 whose first condition is HAS with item 11
  (\<open>11 * 20 + 1\<close>), and with one whose parameter slot holds 11 for the command AGETx
  (\<open>74 * 150\<close>); the game has the items 0 to 10.
\<close>

definition demo_bad_condition :: GameState where
  "demo_bad_condition =
     demo\<lparr>Actions := [\<lparr>Verb = 1, Noun = 0, Conditions = [221, 0, 0, 0, 0], Commands = [0, 0]\<rparr>]\<rparr>"

definition demo_bad_command :: GameState where
  "demo_bad_command =
     demo\<lparr>Actions := [\<lparr>Verb = 1, Noun = 0, Conditions = [220, 0, 0, 0, 0], Commands = [11100, 0]\<rparr>]\<rparr>"

text \<open>
  The small adventure with one action for verb 1 that sets flag 16: its first condition
  slot holds the parameter 16 (\<open>16 * 20\<close>, a PAR condition) and its first command is SETz
  (\<open>58 * 150\<close>); and the state after that action has run.
\<close>

definition demo_set_flag :: GameState where
  "demo_set_flag =
     demo\<lparr>Actions := [\<lparr>Verb = 1, Noun = 0, Conditions = [320, 0, 0, 0, 0], Commands = [8700, 0]\<rparr>]\<rparr>"

definition demo_flag_set :: GameState where
  "demo_flag_set = demo_set_flag\<lparr>BitFlags := 65536\<rparr>"

text \<open>
  Every \<open>int\<close> field of a Go \<open>GameState\<close> that a saved game holds is a 64-bit value.
\<close>

definition ints_ok :: "GameState \<Rightarrow> bool" where
  "ints_ok s = (int64_ok (AdventureNumber (Header s)) \<and> int64_ok (CurrentRoom s) \<and> int64_ok (Counter s)
     \<and> list_all int64_ok (AltCounters s) \<and> list_all int64_ok (AltRooms s)
     \<and> list_all int64_ok (ItemLocations s))"

text \<open>\<open>os.Create\<close> succeeds on a path unless the path is one that cannot be opened.\<close>

definition creatable :: "World \<Rightarrow> string \<Rightarrow> bool" where
  "creatable w path = (case disk w path of Denied err \<Rightarrow> False | _ \<Rightarrow> True)"

text \<open>
  A console on which the player types the file name \<open>game.sav\<close> (twice), with that file
  holding the given lines.
\<close>

definition console_with_save :: "string list \<Rightarrow> World" where
  "console_with_save ls =
     \<lparr>stdin = [''game.sav'', ''game.sav''], stdout = [],
      disk = (\<lambda>path. if path = ''game.sav'' then File ls else NoFile),
      rng = (\<lambda>i. 0), rng_used = 0\<rparr>"

text \<open>The small adventure some turns into the game.\<close>

definition demo_later :: GameState where
  "demo_later = demo\<lparr>CurrentRoom := 3, ItemLocations := [0, 255, 1, 255, 3, 2, 0, 0, 0, 255, 3],
     BitFlags := 32769, Counter := - 1, AltCounters := [7, 0, 0, 0, 0, 0, 0, - 2, 117],
     AltRooms := [2, 0, 0, 0, 0, 1], DisplayedRoom := True\<rparr>"

text \<open>A console on which no file can be opened.\<close>

definition console_denied :: World where
  "console_denied =
     \<lparr>stdin = [''game.sav''], stdout = [], disk = (\<lambda>path. Denied ''permission denied''),
      rng = (\<lambda>i. 0), rng_used = 0\<rparr>"

text \<open>
  A result with the action table and the current action replaced: what is left of a
  command's effect when the table it ran from is put aside.
\<close>

definition with_table :: "Action list \<Rightarrow> int \<Rightarrow> halt + GameState \<times> World \<Rightarrow> halt + GameState \<times> World" where
  "with_table acts k r =
     (case r of Inl e \<Rightarrow> Inl e | Inr sw \<Rightarrow> Inr ((fst sw)\<lparr>Actions := acts, CurrentAction := k\<rparr>, snd sw))"




text \<open>
  The table A, B, C with a fourth action D for verb 5 that shows message 4; and a table
  whose only action is automatic (verb 0, noun 0), has no condition and issues CONT.
\<close>

definition demo_four :: GameState where
  "demo_four = demo\<lparr>Actions := demo_actions
     @ [\<lparr>Verb = 5, Noun = 0, Conditions = [0, 0, 0, 0, 0], Commands = [600, 0]\<rparr>]\<rparr>"

definition demo_auto_cont :: GameState where
  "demo_auto_cont =
     demo\<lparr>Actions := [\<lparr>Verb = 0, Noun = 0, Conditions = [0, 0, 0, 0, 0], Commands = [10950, 0]\<rparr>]\<rparr>"

text \<open>
  The small adventure with the counter at 3, alternate counter 5 at 7, and one action whose
  first condition slot holds the parameter 5 (\<open>5 * 20\<close>, a PAR condition).
\<close>

definition counter_action :: Action where
  "counter_action = \<lparr>Verb = 1, Noun = 0, Conditions = [100, 0, 0, 0, 0], Commands = [0, 0]\<rparr>"

definition demo_counter :: GameState where
  "demo_counter = demo\<lparr>Actions := [counter_action], Counter := 3,
     AltCounters := [0, 0, 0, 0, 0, 7, 0, 0, 125]\<rparr>"

section \<open>Basic facts\<close>

lemma bnd_Inr [simp]: "bnd (Inr x) f = f x"
  by (simp add: bnd_def)

lemma bnd_Inl [simp]: "bnd (Inl e) f = Inl e"
  by (simp add: bnd_def)

text \<open>On values that are not negative Go's division is the mathematical one.\<close>

lemma quo_nonneg: "0 \<le> a \<Longrightarrow> 0 < b \<Longrightarrow> quo a b = a div b"
  by (cases "a = 0") (simp_all add: quo_def)

lemma rem_nonneg: "0 \<le> a \<Longrightarrow> 0 < b \<Longrightarrow> rem a b = a mod b"
  by (cases "a = 0") (simp_all add: rem_def)

lemma demo_carried_count: "carried_count demo = 3"
  by (simp add: carried_count_def demo_def demo_header_def demo_locations_def CARRIED_def upt_rec)

section \<open>GET and DROP\<close>

text \<open>
  C10. For an item number that is at most 0 or above \<open>NumItems\<close>, \<open>GetItem\<close> and
  \<open>DropItem\<close> print their failure message and return with the game state unchanged.
\<close>

theorem GetItem_DropItem_reject_bad_index:
  assumes "itemNumber \<le> 0 \<or> itemNumber > NumItems (Header s)"
  shows "GetItem (s, w) itemNumber = Inr (s, println ''I don't see that here.'' w)
       \<and> DropItem (s, w) itemNumber = Inr (s, println ''I don't have that.'' w)"
  using assms by (auto simp add: GetItem_def DropItem_def Let_def)

theorem GetItem_DropItem_reject_bad_index_witness:
  "((0::int) \<le> 0 \<or> 0 > NumItems (Header demo))
   \<and> GetItem (demo, console) 0 = Inr (demo, println ''I don't see that here.'' console)
   \<and> DropItem (demo, console) 0 = Inr (demo, println ''I don't have that.'' console)
   \<and> (11 \<le> 0 \<or> 11 > NumItems (Header demo))
   \<and> GetItem (demo, console) 11 = Inr (demo, println ''I don't see that here.'' console)
   \<and> DropItem (demo, console) 11 = Inr (demo, println ''I don't have that.'' console)"
proof -
  have a: "(0::int) \<le> 0 \<or> 0 > NumItems (Header demo)" by simp
  have b: "11 \<le> 0 \<or> 11 > NumItems (Header demo)" by (simp add: demo_def demo_header_def)
  show ?thesis
    using a b GetItem_DropItem_reject_bad_index [OF a, of console]
      GetItem_DropItem_reject_bad_index [OF b, of console]
    by simp
qed

text \<open>The two refusals, each with the text it prints.\<close>

lemma GetItem_full:
  assumes "carried_count s \<ge> MaxCarry (Header s)"
    and "idx (ItemLocations s) itemNumber = Inr (CurrentRoom s)"
  shows "GetItem (s, w) itemNumber =
       Inr (s, println (if 0 < itemNumber \<and> itemNumber \<le> NumItems (Header s)
                        then ''I'm carrying too much already.'' else ''I don't see that here.'') w)"
  using assms by (auto simp add: GetItem_def Let_def)

lemma DropItem_uncarried:
  assumes "idx (ItemLocations s) itemNumber = Inr loc" and "loc \<noteq> CARRIED"
  shows "\<exists>t. DropItem (s, w) itemNumber = Inr (s, print (''I don't have that.'' @ nl @ t) w)"
proof (cases "itemNumber \<le> 0 \<or> itemNumber > NumItems (Header s)")
  case True
  then have "DropItem (s, w) itemNumber = Inr (s, print (''I don't have that.'' @ nl @ []) w)"
    by (auto simp add: DropItem_def Let_def println_def)
  then show ?thesis by blast
next
  case False
  show ?thesis
  proof (cases "Debug s")
    case True
    with False assms have "DropItem (s, w) itemNumber =
        Inr (s, print (''I don't have that.'' @ nl @ (''[DEBUG] Item '' @ show_int itemNumber
               @ '' is not carried, it's in room '' @ show_int loc @ nl)) w)"
      by (simp add: DropItem_def Let_def println_def print_def)
    then show ?thesis by blast
  next
    case dbg: False
    with False assms have "DropItem (s, w) itemNumber = Inr (s, print (''I don't have that.'' @ nl @ []) w)"
      by (simp add: DropItem_def Let_def println_def print_def)
    then show ?thesis by blast
  qed
qed

text \<open>
  C8. When the number of carried items has reached \<open>MaxCarry\<close>, GET of an item that is in
  the current room fails: a message is printed, the item stays where it is and nothing else
  of the game state changes. DROP of an item that is not carried fails in the same way,
  in every game state.
\<close>

theorem GetItem_full_DropItem_uncarried_no_change:
  "(carried_count s = MaxCarry (Header s) \<and> idx (ItemLocations s) itemNumber = Inr (CurrentRoom s) \<longrightarrow>
      GetItem (s, w) itemNumber =
        Inr (s, println (if 0 < itemNumber \<and> itemNumber \<le> NumItems (Header s)
                         then ''I'm carrying too much already.'' else ''I don't see that here.'') w))
   \<and> (idx (ItemLocations s) itemNumber = Inr loc \<and> loc \<noteq> CARRIED \<longrightarrow>
      (\<exists>t. DropItem (s, w) itemNumber = Inr (s, print (''I don't have that.'' @ nl @ t) w)))"
  using GetItem_full [of s itemNumber w] DropItem_uncarried [of s itemNumber loc w] by simp

theorem GetItem_full_DropItem_uncarried_no_change_witness:
  "carried_count demo = MaxCarry (Header demo)
   \<and> idx (ItemLocations demo) 1 = Inr (CurrentRoom demo)
   \<and> GetItem (demo, console) 1 = Inr (demo, println ''I'm carrying too much already.'' console)
   \<and> idx (ItemLocations demo) 1 = Inr 1 \<and> 1 \<noteq> CARRIED
   \<and> (\<exists>t. DropItem (demo, console) 1 = Inr (demo, print (''I don't have that.'' @ nl @ t) console))"
proof -
  have a: "carried_count demo = MaxCarry (Header demo)"
    by (simp add: demo_carried_count) (simp add: demo_def demo_header_def)
  have b: "idx (ItemLocations demo) 1 = Inr (CurrentRoom demo)"
    by (simp add: idx_def demo_def demo_locations_def)
  have c: "idx (ItemLocations demo) 1 = Inr 1"
    by (simp add: idx_def demo_def demo_locations_def)
  have d: "(1::int) \<noteq> CARRIED" by (simp add: CARRIED_def)
  have e: "(0::int) < 1 \<and> 1 \<le> NumItems (Header demo)" by (simp add: demo_def demo_header_def)
  show ?thesis
    using a b c d e GetItem_full_DropItem_uncarried_no_change [of demo 1 console 1]
    by simp
qed

section \<open>Message opcodes\<close>

lemma demo_message: "i < 102 \<Longrightarrow> Messages demo ! i = ''message '' @ show_nat i"
  by (simp add: demo_def)

text \<open>
  C9, as amended. An opcode from 1 to 51 prints the message of that number, an opcode from
  102 to 149 prints the message numbered 50 less, and the game state stays as it is
  (the current action's condition slot is read first, and the message has to exist).
  The opcodes 150 and 151, like every opcode from 150 on, print nothing and change nothing.
\<close>

theorem message_opcodes_pure_output:
  assumes "idx (Actions s) (CurrentAction s) = Inr a" and "idx (Conditions a) cmdPosition = Inr c"
  shows "(1 \<le> cmd \<and> cmd \<le> 51 \<and> cmd < int (length (Messages s)) \<longrightarrow>
            ExecuteCommand (s, w) cmd cmdPosition = Inr (s, println (Messages s ! nat cmd) w))
       \<and> (102 \<le> cmd \<and> cmd \<le> 149 \<and> cmd - 50 < int (length (Messages s)) \<longrightarrow>
            ExecuteCommand (s, w) cmd cmdPosition = Inr (s, println (Messages s ! nat (cmd - 50)) w))
       \<and> (150 \<le> cmd \<longrightarrow> ExecuteCommand (s, w) cmd cmdPosition = Inr (s, w))"
  using assms by (simp add: ExecuteCommand_def Let_def idx_def)

theorem message_opcodes_pure_output_witness:
  "idx (Actions demo) (CurrentAction demo) = Inr (demo_actions ! 0)
   \<and> idx (Conditions (demo_actions ! 0)) 0 = Inr 0
   \<and> (1::int) \<le> 51 \<and> 1 < int (length (Messages demo))
   \<and> ExecuteCommand (demo, console) 1 0 = Inr (demo, println ''message 1'' console)
   \<and> (102::int) \<le> 149 \<and> 102 - 50 < int (length (Messages demo))
   \<and> ExecuteCommand (demo, console) 102 0 = Inr (demo, println ''message 52'' console)
   \<and> (150::int) \<le> 150
   \<and> ExecuteCommand (demo, console) 150 0 = Inr (demo, console)
   \<and> (150::int) \<le> 151
   \<and> ExecuteCommand (demo, console) 151 0 = Inr (demo, console)"
proof -
  have a: "idx (Actions demo) (CurrentAction demo) = Inr (demo_actions ! 0)"
    by (simp add: idx_def demo_def demo_actions_def)
  have b: "idx (Conditions (demo_actions ! 0)) 0 = Inr 0"
    by (simp add: idx_def demo_actions_def)
  have l: "length (Messages demo) = 102" by (simp add: demo_def)
  have m1: "Messages demo ! nat 1 = ''message 1''"
    by (simp add: demo_message show_nat.simps digit_char_def)
  have m52: "Messages demo ! nat (102 - 50) = ''message 52''"
    by (simp add: demo_message show_nat.simps digit_char_def)
  show ?thesis
    using a b l m1 m52 message_opcodes_pure_output [OF a b, of 1 console]
      message_opcodes_pure_output [OF a b, of 102 console]
      message_opcodes_pure_output [OF a b, of 150 console]
      message_opcodes_pure_output [OF a b, of 151 console]
    by simp
qed

text \<open>
  The opcodes 150 and 151 are outside the guard \<open>cmd \<le> 149\<close>: the messages 100 and 101
  exist and are not printed.
\<close>

theorem opcodes_150_151_print_nothing:
  "idx (Messages demo) (150 - 50) = Inr ''message 100''
   \<and> ExecuteCommand (demo, console) 150 0 = Inr (demo, console)
   \<and> ExecuteCommand (demo, console) 150 0 \<noteq> Inr (demo, println ''message 100'' console)
   \<and> idx (Messages demo) (151 - 50) = Inr ''message 101''
   \<and> ExecuteCommand (demo, console) 151 0 = Inr (demo, console)
   \<and> ExecuteCommand (demo, console) 151 0 \<noteq> Inr (demo, println ''message 101'' console)"
  by (simp add: ExecuteCommand_def Let_def idx_def demo_def demo_actions_def show_nat.simps
      digit_char_def println_def print_def console_def)

section \<open>Indices out of range\<close>

text \<open>
  C6. An item index above \<open>NumItems\<close> in a condition or in a command parameter is used
  as it is to index \<open>ItemLocations\<close>: the condition HAS with item 11 and the command AGETx
  with item 11 end the run of a game that has the items 0 to 10.
\<close>

theorem out_of_range_item_index_halts:
  "EvaluateCondition (demo, console) 1 11 = Inl IndexOutOfRange
   \<and> ProcessActionsWithVerb (demo_bad_condition, console) 1 0 = Inl IndexOutOfRange
   \<and> ProcessActionsWithVerb (demo_bad_command, console) 1 0 = Inl IndexOutOfRange"
  by (simp add: ProcessActionsWithVerb_def ProcessExactAction_def CheckConditions_def
      ExecuteCommands_def ExecuteCommand_def EvaluateCondition_def Let_def idx_def upd_def
      demo_bad_condition_def demo_bad_command_def demo_def demo_locations_def quo_def rem_def
      enumerate_eq_zip upt_rec)

section \<open>The primary counter\<close>

lemma wrap64_id: "int64_ok x \<Longrightarrow> wrap64 x = x"
  by (simp add: wrap64_def int64_ok_def signed_take_bit_int_eq_self)

lemma wrap64_ok: "int64_ok (wrap64 x)"
  using signed_take_bit_int_less_exp [of 63 x] signed_take_bit_int_greater_eq_minus_exp [of 63 x]
  by (simp add: wrap64_def int64_ok_def)

text \<open>
  C4, as amended. The subtract opcode 83 leaves the counter at \<open>- 1\<close> or above in every
  state: it subtracts its parameter and puts \<open>- 1\<close> in place of any lower result. The add
  opcode 82 adds its parameter, and keeps a counter of at least \<open>- 1\<close> there when the
  parameter is not negative and the sum fits the 64-bit integer. The swap opcode 81 exchanges
  the counter with the alternate counter it names, so the counter becomes that alternate
  counter. (The decrement opcode 77 has no floor.)
\<close>

theorem counter_opcodes_floor:
  assumes "idx (Actions s) (CurrentAction s) = Inr a" and "idx (Conditions a) cmdPosition = Inr c"
    and "cmdPosition < 5"
  shows "ExecuteCommand (s, w) 83 cmdPosition =
           Inr (s\<lparr>Counter := (if wrap64 (Counter s - quo c 20) < - 1 then - 1
                               else wrap64 (Counter s - quo c 20))\<rparr>, w)
       \<and> (\<exists>s'. ExecuteCommand (s, w) 83 cmdPosition = Inr (s', w) \<and> - 1 \<le> Counter s')
       \<and> (- 1 \<le> Counter s \<and> 0 \<le> quo c 20 \<and> Counter s + quo c 20 < 2 ^ 63 \<longrightarrow>
            ExecuteCommand (s, w) 82 cmdPosition = Inr (s\<lparr>Counter := Counter s + quo c 20\<rparr>, w)
          \<and> (\<exists>s'. ExecuteCommand (s, w) 82 cmdPosition = Inr (s', w) \<and> - 1 \<le> Counter s'))
       \<and> (idx (AltCounters s) (quo c 20) = Inr alt \<longrightarrow>
            ExecuteCommand (s, w) 81 cmdPosition =
              Inr (s\<lparr>Counter := alt, AltCounters := (AltCounters s)[nat (quo c 20) := Counter s]\<rparr>, w)
          \<and> (\<exists>s'. ExecuteCommand (s, w) 81 cmdPosition = Inr (s', w) \<and> Counter s' = alt))"
proof (intro conjI impI)
  show e83: "ExecuteCommand (s, w) 83 cmdPosition =
           Inr (s\<lparr>Counter := (if wrap64 (Counter s - quo c 20) < - 1 then - 1
                               else wrap64 (Counter s - quo c 20))\<rparr>, w)"
    using assms by (simp add: ExecuteCommand_def Let_def idx_def)
  show "\<exists>s'. ExecuteCommand (s, w) 83 cmdPosition = Inr (s', w) \<and> - 1 \<le> Counter s'"
    unfolding e83 by simp
next
  assume h: "- 1 \<le> Counter s \<and> 0 \<le> quo c 20 \<and> Counter s + quo c 20 < 2 ^ 63"
  then have "int64_ok (Counter s + quo c 20)" by (simp add: int64_ok_def)
  then have "wrap64 (Counter s + quo c 20) = Counter s + quo c 20" by (rule wrap64_id)
  then show e82: "ExecuteCommand (s, w) 82 cmdPosition = Inr (s\<lparr>Counter := Counter s + quo c 20\<rparr>, w)"
    using assms by (simp add: ExecuteCommand_def Let_def idx_def)
  show "\<exists>s'. ExecuteCommand (s, w) 82 cmdPosition = Inr (s', w) \<and> - 1 \<le> Counter s'"
    unfolding e82 using h by simp
next
  assume h: "idx (AltCounters s) (quo c 20) = Inr alt"
  then show e81: "ExecuteCommand (s, w) 81 cmdPosition =
              Inr (s\<lparr>Counter := alt, AltCounters := (AltCounters s)[nat (quo c 20) := Counter s]\<rparr>, w)"
    using assms by (simp add: ExecuteCommand_def Let_def idx_def upd_def split: if_splits)
  show "\<exists>s'. ExecuteCommand (s, w) 81 cmdPosition = Inr (s', w) \<and> Counter s' = alt"
    unfolding e81 by simp
qed

text \<open>
  In the state \<open>demo_counter\<close> the counter is 3, the parameter is 5 and alternate counter 5
  holds 7: opcode 83 computes \<open>- 2\<close> and leaves \<open>- 1\<close>, opcode 82 leaves 8, opcode 81 leaves 7
  and puts 3 into the alternate counter.
\<close>

theorem counter_opcodes_floor_witness:
  "idx (Actions demo_counter) (CurrentAction demo_counter) = Inr counter_action
   \<and> idx (Conditions counter_action) 0 = Inr 100 \<and> (0::int) < 5 \<and> quo 100 20 = 5
   \<and> ExecuteCommand (demo_counter, console) 83 0 = Inr (demo_counter\<lparr>Counter := - 1\<rparr>, console)
   \<and> - 1 \<le> Counter demo_counter \<and> 0 \<le> quo 100 20 \<and> Counter demo_counter + quo 100 20 < 2 ^ 63
   \<and> ExecuteCommand (demo_counter, console) 82 0 = Inr (demo_counter\<lparr>Counter := 8\<rparr>, console)
   \<and> idx (AltCounters demo_counter) (quo 100 20) = Inr 7
   \<and> ExecuteCommand (demo_counter, console) 81 0 =
        Inr (demo_counter\<lparr>Counter := 7, AltCounters := [0, 0, 0, 0, 0, 3, 0, 0, 125]\<rparr>, console)"
proof -
  have a: "idx (Actions demo_counter) (CurrentAction demo_counter) = Inr counter_action"
    by (simp add: idx_def demo_counter_def demo_def)
  have b: "idx (Conditions counter_action) 0 = Inr 100"
    by (simp add: idx_def counter_action_def)
  have c: "(0::int) < 5" by simp
  have q: "quo 100 20 = 5" by (simp add: quo_def)
  have d: "- 1 \<le> Counter demo_counter \<and> 0 \<le> quo 100 20 \<and> Counter demo_counter + quo 100 20 < 2 ^ 63"
    by (simp add: demo_counter_def q)
  have e: "idx (AltCounters demo_counter) (quo 100 20) = Inr 7"
    by (simp add: idx_def demo_counter_def q)
  note T = counter_opcodes_floor [OF a b c, where w = console and alt = 7]
  have v: "Counter demo_counter = 3" "AltCounters demo_counter = [0, 0, 0, 0, 0, 7, 0, 0, 125]"
    by (simp_all add: demo_counter_def)
  have w83: "wrap64 (Counter demo_counter - quo 100 20) = - 2"
    by (simp add: v q wrap64_def)
  have r83: "ExecuteCommand (demo_counter, console) 83 0 = Inr (demo_counter\<lparr>Counter := - 1\<rparr>, console)"
    using T w83 by simp
  have r82: "ExecuteCommand (demo_counter, console) 82 0 = Inr (demo_counter\<lparr>Counter := 8\<rparr>, console)"
    using T d by (simp add: v q)
  have r81: "ExecuteCommand (demo_counter, console) 81 0 =
        Inr (demo_counter\<lparr>Counter := 7, AltCounters := [0, 0, 0, 0, 0, 3, 0, 0, 125]\<rparr>, console)"
    using T e by (simp add: v q)
  show ?thesis
    using a b c q d e r83 r82 r81 by (intro conjI) simp_all
qed

text \<open>Two decrements from the initial counter 0: the counter is \<open>- 2\<close>.\<close>

theorem decrement_twice_below_floor:
  "Counter demo = 0
   \<and> bnd (ExecuteCommand (demo, console) 77 0) (\<lambda>sw. ExecuteCommand sw 77 0)
       = Inr (demo\<lparr>Counter := - 2\<rparr>, console)"
  by (simp add: ExecuteCommand_def Let_def idx_def demo_def demo_actions_def wrap64_def)

section \<open>CONT\<close>

lemmas run_defs = ProcessActionsWithVerb_def ProcessExactAction_def CheckConditions_def
  ExecuteCommands_def ExecuteCommand_def Let_def idx_def quo_def rem_def
  enumerate_eq_zip upt_rec show_nat.simps digit_char_def

text \<open>
  C1. In the table A, B, C the player's command for verb 5 runs A alone: A sets the
  continue flag and prints message 1, the scan goes on to B and C, which it passes over
  because their verb is not 5, and C's message 2 is not printed; the flag is still set
  when the dispatcher returns. With a fourth action D for verb 5 in the table, the scan
  that A's CONT keeps alive runs D. The automatic pass runs C in any turn, with no CONT
  issued before.
\<close>

theorem player_command_does_not_run_continuation:
  "ProcessActionsWithVerb (demo, console) 5 0 =
     Inr (demo\<lparr>CurrentAction := 0, ContinueFlag := True\<rparr>, println ''message 1'' console)
   \<and> ProcessActionsWithVerb (demo_four, console) 5 0 =
     Inr (demo_four\<lparr>CurrentAction := 3, ContinueFlag := True\<rparr>,
          println ''message 4'' (println ''message 1'' console))
   \<and> ProcessAutomaticActions 2 (demo, console) =
     Some (Inr (demo\<lparr>CurrentAction := 2\<rparr>, println ''message 2'' console))"
proof (intro conjI)
  show "ProcessActionsWithVerb (demo, console) 5 0 =
     Inr (demo\<lparr>CurrentAction := 0, ContinueFlag := True\<rparr>, println ''message 1'' console)"
    by (simp add: run_defs demo_def demo_actions_def)
  show "ProcessActionsWithVerb (demo_four, console) 5 0 =
     Inr (demo_four\<lparr>CurrentAction := 3, ContinueFlag := True\<rparr>,
          println ''message 4'' (println ''message 1'' console))"
    by (simp add: run_defs demo_four_def demo_def demo_actions_def)
  show "ProcessAutomaticActions 2 (demo, console) =
     Some (Inr (demo\<lparr>CurrentAction := 2\<rparr>, println ''message 2'' console))"
    by (simp add: ProcessAutomaticActions_def run_defs EvaluateCondition_def demo_def demo_actions_def
        numeral_2_eq_2)
qed

text \<open>
  In the automatic pass CONT starts the scan again at the first action: an automatic
  action that issues CONT and has no condition to stop it is run again and again, and the
  pass does not return, whatever the bound on its rounds.
\<close>

lemma automatic_scan_cont:
  "automatic_scan (enumerate 0 (Actions demo_auto_cont))
       (demo_auto_cont\<lparr>CurrentAction := k, ContinueFlag := False\<rparr>, w)
     = Inr (demo_auto_cont\<lparr>CurrentAction := 0, ContinueFlag := True\<rparr>, w)"
  by (simp add: run_defs demo_auto_cont_def demo_def)

lemma automatic_loop_cont:
  "automatic_loop fuel (demo_auto_cont\<lparr>CurrentAction := k, ContinueFlag := True\<rparr>, w) = None"
proof (induction fuel arbitrary: k)
  case 0
  then show ?case by simp
next
  case (Suc fuel)
  have "automatic_loop (Suc fuel) (demo_auto_cont\<lparr>CurrentAction := k, ContinueFlag := True\<rparr>, w)
      = (case automatic_scan (enumerate 0 (Actions demo_auto_cont))
                (demo_auto_cont\<lparr>CurrentAction := k, ContinueFlag := False\<rparr>, w) of
           Inl e \<Rightarrow> Some (Inl e)
         | Inr sw' \<Rightarrow> automatic_loop fuel sw')"
    by (simp add: Let_def)
  also have "\<dots> = automatic_loop fuel (demo_auto_cont\<lparr>CurrentAction := 0, ContinueFlag := True\<rparr>, w)"
    by (simp only: automatic_scan_cont sum.case)
  also have "\<dots> = None" by (rule Suc)
  finally show ?case .
qed

lemma automatic_CONT_never_returns:
  "ProcessAutomaticActions fuel (demo_auto_cont, console) = None"
proof -
  have "demo_auto_cont\<lparr>ContinueFlag := True\<rparr> = demo_auto_cont\<lparr>CurrentAction := 0, ContinueFlag := True\<rparr>"
    by (simp add: demo_auto_cont_def demo_def)
  then show ?thesis
    using automatic_loop_cont [of fuel 0 console]
    by (simp add: ProcessAutomaticActions_def)
qed

section \<open>Light depletion\<close>

lemma light_step_carried:
  assumes "idx (ItemLocations s) LIGHT_SOURCE = Inr CARRIED" and "8 < length (AltCounters s)"
  shows "UpdateLightSource (s, w) =
     (let n = wrap64 (AltCounters s ! 8 - 1); s1 = s\<lparr>AltCounters := (AltCounters s)[8 := n]\<rparr> in
      if n \<le> 0 then
        Inr (s1\<lparr>BitFlags := BitFlags s OR shl1 LIGHTOUTBIT,
                ItemLocations := (ItemLocations s)[nat LIGHT_SOURCE := DESTROYED]\<rparr>,
             println ''Light has run out!'' w)
      else if n \<le> 10 then Inr (s1, println ''Light is getting dim.'' w)
      else Inr (s1, w))"
  using assms
  by (auto simp add: UpdateLightSource_def IsDark_def Let_def idx_def upd_def split: if_splits)

lemma light_step_not_carried:
  assumes "idx (ItemLocations s) LIGHT_SOURCE = Inr loc" and "loc \<noteq> CARRIED"
  shows "UpdateLightSource (s, w) = Inr (s, w)"
  using assms
  by (auto simp add: UpdateLightSource_def IsDark_def Let_def idx_def upd_def split: if_splits)

lemma or_and_absorb: "(x OR m) AND m = (m :: 32 word)"
  by (rule bit_eqI) (auto simp add: bit_simps)

lemma shl1_lightout_nonzero: "shl1 LIGHTOUTBIT \<noteq> 0"
  by (simp add: shl1_def LIGHTOUTBIT_def)

lemma lightout_set: "BitFlags s' = BitFlags s OR shl1 LIGHTOUTBIT \<Longrightarrow> lightout s'"
  by (simp add: lightout_def or_and_absorb shl1_lightout_nonzero)

lemma light_step_positive:
  assumes "idx (ItemLocations s) LIGHT_SOURCE = Inr CARRIED" and "8 < length (AltCounters s)"
    and "1 < AltCounters s ! 8" and "AltCounters s ! 8 < 2 ^ 63"
  shows "\<exists>w'. UpdateLightSource (s, w) =
           Inr (s\<lparr>AltCounters := (AltCounters s)[8 := AltCounters s ! 8 - 1]\<rparr>, w')"
proof -
  have "int64_ok (AltCounters s ! 8 - 1)" using assms by (simp add: int64_ok_def)
  then have "wrap64 (AltCounters s ! 8 - 1) = AltCounters s ! 8 - 1" by (rule wrap64_id)
  then show ?thesis using assms by (simp add: light_step_carried Let_def)
qed

lemma light_step_last:
  assumes "idx (ItemLocations s) LIGHT_SOURCE = Inr CARRIED" and "8 < length (AltCounters s)"
    and "AltCounters s ! 8 = 1"
  shows "\<exists>s' w'. UpdateLightSource (s, w) = Inr (s', w') \<and> lightout s'"
proof -
  have "wrap64 (AltCounters s ! 8 - 1) = 0" using assms by (simp add: wrap64_def)
  then show ?thesis using assms by (simp add: light_step_carried Let_def lightout_set)
qed

text \<open>While the counter stays above 0, \<open>k\<close> turns only count it down by \<open>k\<close>.\<close>

lemma light_turns_before:
  assumes "idx (ItemLocations s) LIGHT_SOURCE = Inr CARRIED" and "8 < length (AltCounters s)"
    and "int k < AltCounters s ! 8" and "AltCounters s ! 8 < 2 ^ 63"
  shows "\<exists>s' w'. light_turns k (s, w) = Inr (s', w') \<and> BitFlags s' = BitFlags s
           \<and> ItemLocations s' = ItemLocations s
           \<and> AltCounters s' = (AltCounters s)[8 := AltCounters s ! 8 - int k]"
  using assms
proof (induction k arbitrary: s w)
  case 0
  then show ?case by simp
next
  case (Suc k)
  let ?s1 = "s\<lparr>AltCounters := (AltCounters s)[8 := AltCounters s ! 8 - 1]\<rparr>"
  from Suc.prems obtain w1 where step: "UpdateLightSource (s, w) = Inr (?s1, w1)"
    using light_step_positive [of s w] by auto
  have "\<exists>s' w'. light_turns k (?s1, w1) = Inr (s', w') \<and> BitFlags s' = BitFlags ?s1
           \<and> ItemLocations s' = ItemLocations ?s1
           \<and> AltCounters s' = (AltCounters ?s1)[8 := AltCounters ?s1 ! 8 - int k]"
    using Suc.prems by (intro Suc.IH) simp_all
  then show ?case using step Suc.prems by (auto simp add: algebra_simps)
qed

lemma light_turns_append:
  "light_turns (m + n) sw = bnd (light_turns m sw) (light_turns n)"
proof (induction m arbitrary: sw)
  case 0
  then show ?case by simp
next
  case (Suc m)
  then show ?case by (cases "UpdateLightSource sw") simp_all
qed

lemma light_turns_exhaust:
  assumes "idx (ItemLocations s) LIGHT_SOURCE = Inr CARRIED" and "8 < length (AltCounters s)"
    and "AltCounters s ! 8 = int (Suc k)" and "AltCounters s ! 8 < 2 ^ 63"
  shows "\<exists>s' w'. light_turns (Suc k) (s, w) = Inr (s', w') \<and> lightout s'"
proof -
  from assms obtain s1 w1 where a: "light_turns k (s, w) = Inr (s1, w1)"
      and b: "ItemLocations s1 = ItemLocations s"
      and c: "AltCounters s1 = (AltCounters s)[8 := AltCounters s ! 8 - int k]"
    using light_turns_before [of s k w] by auto
  have "AltCounters s1 ! 8 = 1" using c assms by simp
  moreover have "8 < length (AltCounters s1)" using c assms by simp
  moreover have "idx (ItemLocations s1) LIGHT_SOURCE = Inr CARRIED" using b assms by simp
  ultimately obtain s' w' where "UpdateLightSource (s1, w1) = Inr (s', w')" "lightout s'"
    using light_step_last [of s1 w1] by auto
  moreover have "light_turns (Suc k) (s, w) = bnd (light_turns k (s, w)) (light_turns 1)"
    using light_turns_append [of k 1 "(s, w)"] by simp
  ultimately show ?thesis using a by simp
qed

lemma demo_light_carried: "idx (ItemLocations demo) LIGHT_SOURCE = Inr CARRIED"
  by (simp add: idx_def demo_def demo_locations_def LIGHT_SOURCE_def CARRIED_def)

lemma demo_light_time: "8 < length (AltCounters demo) \<and> AltCounters demo ! 8 = 125"
  by (simp add: demo_def)

lemma demo_not_lightout: "\<not> lightout demo"
  by (simp add: lightout_def demo_def)

lemma IsDark_carried:
  "idx (ItemLocations s) LIGHT_SOURCE = Inr CARRIED \<Longrightarrow> IsDark s = Inr False"
  by (simp add: IsDark_def)

text \<open>
  What a turn's light update does, case by case. With the light source carried the test
  \<open>!IsDark(state)\<close> cannot fail, so the update decrements \<open>AltCounters[8]\<close>; when the new
  value is 0 or below it sets the light-exhausted flag, prints the warning and moves the
  light source to room 0. With the light source not carried nothing changes. Starting from
  a counter of 125 with the light source carried, the flag is clear after each of the first
  124 updates and set by the 125th: \<open>UpdateLightSource\<close> is the last step of a turn of
  \<open>RunGame\<close>, so turn 126 is the first turn that begins with the flag set.
\<close>

lemma light_update_and_countdown:
  assumes "8 < length (AltCounters s)"
  shows "(idx (ItemLocations s) LIGHT_SOURCE = Inr CARRIED \<longrightarrow>
            UpdateLightSource (s, w) =
              (let n = wrap64 (AltCounters s ! 8 - 1); s1 = s\<lparr>AltCounters := (AltCounters s)[8 := n]\<rparr> in
               if n \<le> 0 then
                 Inr (s1\<lparr>BitFlags := BitFlags s OR shl1 LIGHTOUTBIT,
                         ItemLocations := (ItemLocations s)[nat LIGHT_SOURCE := DESTROYED]\<rparr>,
                      println ''Light has run out!'' w)
               else if n \<le> 10 then Inr (s1, println ''Light is getting dim.'' w)
               else Inr (s1, w)))
       \<and> (idx (ItemLocations s) LIGHT_SOURCE = Inr loc \<and> loc \<noteq> CARRIED \<longrightarrow>
            UpdateLightSource (s, w) = Inr (s, w))
       \<and> (idx (ItemLocations s) LIGHT_SOURCE = Inr CARRIED \<and> AltCounters s ! 8 = 125 \<and> \<not> lightout s \<longrightarrow>
            (\<forall>k<125. \<exists>s' w'. light_turns k (s, w) = Inr (s', w') \<and> \<not> lightout s')
          \<and> (\<exists>s' w'. light_turns 125 (s, w) = Inr (s', w') \<and> lightout s'))"
proof (intro conjI impI allI)
  assume "idx (ItemLocations s) LIGHT_SOURCE = Inr CARRIED"
  then show "UpdateLightSource (s, w) =
              (let n = wrap64 (AltCounters s ! 8 - 1); s1 = s\<lparr>AltCounters := (AltCounters s)[8 := n]\<rparr> in
               if n \<le> 0 then
                 Inr (s1\<lparr>BitFlags := BitFlags s OR shl1 LIGHTOUTBIT,
                         ItemLocations := (ItemLocations s)[nat LIGHT_SOURCE := DESTROYED]\<rparr>,
                      println ''Light has run out!'' w)
               else if n \<le> 10 then Inr (s1, println ''Light is getting dim.'' w)
               else Inr (s1, w))"
    using assms by (rule light_step_carried)
next
  assume "idx (ItemLocations s) LIGHT_SOURCE = Inr loc \<and> loc \<noteq> CARRIED"
  then show "UpdateLightSource (s, w) = Inr (s, w)"
    using light_step_not_carried [of s loc w] by simp
next
  fix k :: nat
  assume h: "idx (ItemLocations s) LIGHT_SOURCE = Inr CARRIED \<and> AltCounters s ! 8 = 125 \<and> \<not> lightout s"
    and k: "k < 125"
  then obtain s' w' where "light_turns k (s, w) = Inr (s', w')" "BitFlags s' = BitFlags s"
    using assms light_turns_before [of s k w] by auto
  then show "\<exists>s' w'. light_turns k (s, w) = Inr (s', w') \<and> \<not> lightout s'"
    using h by (auto simp add: lightout_def)
next
  assume h: "idx (ItemLocations s) LIGHT_SOURCE = Inr CARRIED \<and> AltCounters s ! 8 = 125 \<and> \<not> lightout s"
  then show "\<exists>s' w'. light_turns 125 (s, w) = Inr (s', w') \<and> lightout s'"
    using assms light_turns_exhaust [of s 124 w] by simp
qed

text \<open>
  C3. The light-exhausted flag is not consulted by the light update. The player's command
  runs an action that sets flag 16 (opcode 58 with the parameter 16) while the light
  source is carried; the light update that ends the turn finds the flag set and still
  takes the counter from 125 to 124.
\<close>

theorem light_counts_down_with_flag_set:
  "ProcessActionsWithVerb (demo_set_flag, console) 1 0 = Inr (demo_flag_set, console)
   \<and> lightout demo_flag_set
   \<and> idx (ItemLocations demo_flag_set) LIGHT_SOURCE = Inr CARRIED
   \<and> AltCounters demo_flag_set = [0, 0, 0, 0, 0, 0, 0, 0, 125]
   \<and> UpdateLightSource (demo_flag_set, console) =
       Inr (demo_flag_set\<lparr>AltCounters := [0, 0, 0, 0, 0, 0, 0, 0, 124]\<rparr>, console)"
proof (intro conjI)
  show "ProcessActionsWithVerb (demo_set_flag, console) 1 0 = Inr (demo_flag_set, console)"
    by (simp add: run_defs EvaluateCondition_def check_loop.simps demo_flag_set_def demo_set_flag_def
        demo_def shl1_def)
  show "lightout demo_flag_set"
    by (simp add: lightout_def demo_flag_set_def shl1_def LIGHTOUTBIT_def)
  show "idx (ItemLocations demo_flag_set) LIGHT_SOURCE = Inr CARRIED"
    by (simp add: idx_def demo_flag_set_def demo_set_flag_def demo_def demo_locations_def
        LIGHT_SOURCE_def CARRIED_def)
  show "AltCounters demo_flag_set = [0, 0, 0, 0, 0, 0, 0, 0, 125]"
    by (simp add: demo_flag_set_def demo_set_flag_def demo_def)
  show "UpdateLightSource (demo_flag_set, console) =
       Inr (demo_flag_set\<lparr>AltCounters := [0, 0, 0, 0, 0, 0, 0, 0, 124]\<rparr>, console)"
    by (simp add: UpdateLightSource_def IsDark_def Let_def idx_def upd_def shl1_def demo_flag_set_def
        demo_set_flag_def demo_def demo_locations_def LIGHT_SOURCE_def CARRIED_def LIGHTOUTBIT_def
        DARKBIT_def wrap64_def)
qed

section \<open>Saved games\<close>

lemma digit_val_digit_char: "d < 10 \<Longrightarrow> digit_val (digit_char d) = Some d"
proof -
  assume "d < 10"
  then have "d \<in> {0, 1, 2, 3, 4, 5, 6, 7, 8, 9}" by auto
  then show ?thesis by (auto simp add: digit_val_def digit_char_def)
qed

lemma ParseUint_loop_append:
  "ParseUint_loop m (xs @ ys) acc =
     (case ParseUint_loop m xs acc of
        Parsed v \<Rightarrow> ParseUint_loop m ys v
      | SyntaxError \<Rightarrow> SyntaxError
      | RangeError \<Rightarrow> RangeError)"
  by (induction xs arbitrary: acc) (auto split: option.splits)

lemma ParseUint_loop_show_nat:
  assumes "n \<le> m" and "m < 2 ^ 64"
  shows "ParseUint_loop m (show_nat n) 0 = Parsed n"
  using assms
proof (induction n rule: show_nat.induct)
  case (1 n)
  show ?case
  proof (cases "n < 10")
    case True
    then show ?thesis using 1 by (simp add: show_nat.simps [of n] digit_val_digit_char)
  next
    case False
    have "n div 10 \<le> m" using 1 by (simp add: div_le_dividend le_trans)
    then have ih: "ParseUint_loop m (show_nat (n div 10)) 0 = Parsed (n div 10)"
      using 1 False by simp
    have "n \<le> 2 ^ 64 - 1" using 1 by simp
    then have "n div 10 \<le> (2 ^ 64 - 1) div 10" by (rule div_le_mono)
    then have small: "\<not> (2 ^ 64 - 1) div 10 + 1 \<le> n div 10" by simp
    have "n div 10 * 10 + n mod 10 = n" by simp
    then have fit: "\<not> m < n div 10 * 10 + n mod 10" using 1 by simp
    have "ParseUint_loop m [digit_char (n mod 10)] (n div 10) = Parsed n"
      using small fit by (simp add: digit_val_digit_char)
    then show ?thesis using False ih
      by (simp add: show_nat.simps [of n] ParseUint_loop_append)
  qed
qed

lemma show_nat_nonempty: "show_nat n \<noteq> []"
  by (simp add: show_nat.simps [of n])

lemma hd_show_nat: "\<exists>d<10. hd (show_nat n) = digit_char d"
proof (induction n rule: show_nat.induct)
  case (1 n)
  show ?case
  proof (cases "n < 10")
    case True
    then show ?thesis by (auto simp add: show_nat.simps [of n])
  next
    case False
    then show ?thesis using 1 show_nat_nonempty [of "n div 10"]
      by (simp add: show_nat.simps [of n])
  qed
qed

lemma digit_char_not_sign: "d < 10 \<Longrightarrow> digit_char d \<noteq> CHR ''-'' \<and> digit_char d \<noteq> CHR ''+''"
proof -
  assume "d < 10"
  then have "d \<in> {0, 1, 2, 3, 4, 5, 6, 7, 8, 9}" by auto
  then show ?thesis by (auto simp add: digit_char_def)
qed

lemma hd_show_nat_not_sign: "hd (show_nat n) \<noteq> CHR ''-'' \<and> hd (show_nat n) \<noteq> CHR ''+''"
proof -
  obtain d where "d < 10" and "hd (show_nat n) = digit_char d"
    using hd_show_nat [of n] by blast
  then show ?thesis using digit_char_not_sign [of d] by simp
qed

lemma Atoi_show_int: "int64_ok i \<Longrightarrow> Atoi (show_int i) = i"
proof (cases "i < 0")
  case True
  assume "int64_ok i"
  then have le: "int (nat (- i)) \<le> 2 ^ 63" using True by (simp add: int64_ok_def)
  have "nat (- i) \<le> 2 ^ 64 - 1"
    using \<open>int64_ok i\<close> by (simp add: int64_ok_def nat_le_iff)
  then have "ParseUint_loop (2 ^ 64 - 1) (show_nat (nat (- i))) 0 = Parsed (nat (- i))"
    by (rule ParseUint_loop_show_nat) simp
  then show ?thesis using True le
    by (simp add: Atoi_def show_int_def show_nat_nonempty)
next
  case False
  assume "int64_ok i"
  then have lt: "int (nat i) < 2 ^ 63" using False by (simp add: int64_ok_def)
  have "nat i \<le> 2 ^ 64 - 1"
    using \<open>int64_ok i\<close> by (simp add: int64_ok_def nat_le_iff)
  then have "ParseUint_loop (2 ^ 64 - 1) (show_nat (nat i)) 0 = Parsed (nat i)"
    by (rule ParseUint_loop_show_nat) simp
  then show ?thesis using False lt hd_show_nat_not_sign [of "nat i"]
    by (simp add: Atoi_def show_int_def show_nat_nonempty)
qed

lemma ParseUint32_show: "ParseUint32 (show_nat (unat w)) = w"
proof -
  have "unat w < 2 ^ 32" using unsigned_less [of w] by simp
  then have "unat w \<le> 2 ^ 32 - 1" by simp
  then have "ParseUint_loop (2 ^ 32 - 1) (show_nat (unat w)) 0 = Parsed (unat w)"
    by (rule ParseUint_loop_show_nat) simp
  then show ?thesis by (simp add: ParseUint32_def show_nat_nonempty)
qed

lemma read_into_values:
  assumes "i + length vals \<le> length arr" and "list_all int64_ok vals"
  shows "read_into arr (int i) (length vals) (map show_int vals @ rest)
           = Inr (True, take i arr @ vals @ drop (i + length vals) arr, rest)"
  using assms
proof (induction vals arbitrary: arr i)
  case Nil
  then show ?case by simp
next
  case (Cons v vals)
  have "read_into (arr[i := v]) (int (Suc i)) (length vals) (map show_int vals @ rest)
          = Inr (True, take (Suc i) (arr[i := v]) @ vals @ drop (Suc i + length vals) (arr[i := v]), rest)"
    using Cons.prems by (intro Cons.IH) simp_all
  moreover have "take (Suc i) (arr[i := v]) = take i arr @ [v]"
    using Cons.prems by (simp add: take_Suc_conv_app_nth)
  ultimately show ?case using Cons.prems
    by (simp add: upd_def Atoi_show_int add.commute)
qed


lemma traverse_all:
  "(\<And>x. x \<in> set xs \<Longrightarrow> g x = Inr (h x)) \<Longrightarrow> traverse g xs = Inr (map h xs)"
  by (induction xs) simp_all

lemma map_upto_nat: "map (\<lambda>i. f (nat i)) [0 .. int n - 1] = map f [0 ..< n]"
proof (induction n)
  case 0
  then show ?case by simp
next
  case (Suc n)
  have "[0 .. int (Suc n) - 1] = [0 .. int n - 1] @ [int n]"
    using upto_rec2 [of 0 "int n"] by simp
  then show ?case using Suc by simp
qed

lemma save_lines_eq:
  assumes "int (length (ItemLocations s)) = NumItems (Header s) + 1"
  shows "save_lines s =
     Inr ([show_int (AdventureNumber (Header s)), show_int (CurrentRoom s), show_int (Counter s),
           show_nat (unat (BitFlags s)), show_int (AltCounters s ! 8)]
          @ map (\<lambda>i. show_int (AltRooms s ! i)) [0 ..< 6]
          @ map (\<lambda>i. show_int (AltCounters s ! i)) [0 ..< 8]
          @ map show_int (ItemLocations s))"
proof -
  let ?g = "\<lambda>i. bnd (idx (ItemLocations s) i) (\<lambda>loc. Inr (show_int loc))"
  let ?h = "\<lambda>i. show_int (ItemLocations s ! nat i)"
  have n: "NumItems (Header s) = int (length (ItemLocations s)) - 1" using assms by simp
  have "traverse ?g [0 .. NumItems (Header s)] = Inr (map ?h [0 .. NumItems (Header s)])"
    by (rule traverse_all) (simp add: idx_def n)
  moreover have "map ?h [0 .. NumItems (Header s)] = map show_int (ItemLocations s)"
  proof -
    have "map ?h [0 .. NumItems (Header s)]
            = map (\<lambda>i. show_int (ItemLocations s ! i)) [0 ..< length (ItemLocations s)]"
      unfolding n by (rule map_upto_nat)
    also have "\<dots> = map show_int (map ((!) (ItemLocations s)) [0 ..< length (ItemLocations s)])"
      by (simp only: map_map comp_def)
    also have "\<dots> = map show_int (ItemLocations s)"
      by (simp only: map_nth)
    finally show ?thesis .
  qed
  ultimately show ?thesis by (simp add: save_lines_def)
qed


lemma map_index: "n = length xs \<Longrightarrow> map (\<lambda>i. f (xs ! i)) [0 ..< n] = map f xs"
proof -
  assume "n = length xs"
  then have "map (\<lambda>i. f (xs ! i)) [0 ..< n] = map f (map ((!) xs) [0 ..< length xs])"
    by (simp only: map_map comp_def)
  then show ?thesis by (simp only: map_nth)
qed

lemma map_index_take:
  "n \<le> length xs \<Longrightarrow> map (\<lambda>i. f (xs ! i)) [0 ..< n] = map f (take n xs)"
  by (rule nth_equalityI) simp_all

lemma list_all_take: "list_all P xs \<Longrightarrow> list_all P (take n xs)"
  by (auto simp add: list_all_iff dest: in_set_takeD)

lemma load_lines_saved:
  assumes s: "arrays_ok s" and t: "arrays_ok t" and h: "Header t = Header s" and i: "ints_ok s"
  shows "load_lines t w
     ([show_int (AdventureNumber (Header s)), show_int (CurrentRoom s), show_int (Counter s),
       show_nat (unat (BitFlags s)), show_int (AltCounters s ! 8)]
      @ map (\<lambda>i. show_int (AltRooms s ! i)) [0 ..< 6]
      @ map (\<lambda>i. show_int (AltCounters s ! i)) [0 ..< 8]
      @ map show_int (ItemLocations s))
     = Inr (t\<lparr>CurrentRoom := CurrentRoom s, Counter := Counter s, BitFlags := BitFlags s,
              AltCounters := AltCounters s, AltRooms := AltRooms s,
              ItemLocations := ItemLocations s, DisplayedRoom := False\<rparr>,
            println ''Game loaded.'' w)"
proof -
  have ls: "length (AltRooms s) = 6" "length (AltCounters s) = 9"
    "length (AltRooms t) = 6" "length (AltCounters t) = 9"
    "length (ItemLocations t) = length (ItemLocations s)"
    using s t h by (simp_all add: arrays_ok_def)
  have "int (length (ItemLocations s)) = NumItems (Header s) + 1"
    using s by (simp add: arrays_ok_def)
  then have ln: "nat (NumItems (Header s) + 1) = length (ItemLocations s)"
    by (metis nat_int)
  have ok: "int64_ok (AdventureNumber (Header s))" "int64_ok (CurrentRoom s)" "int64_ok (Counter s)"
    "list_all int64_ok (AltCounters s)" "list_all int64_ok (AltRooms s)"
    "list_all int64_ok (ItemLocations s)"
    using i by (simp_all add: ints_ok_def)
  have ok8: "int64_ok (AltCounters s ! 8)"
    using ok(4) ls(2) by (simp add: list_all_length)
  have m1: "map (\<lambda>i. show_int (AltRooms s ! i)) [0 ..< 6] = map show_int (AltRooms s)"
    using ls(1) by (simp only: map_index)
  have m2: "map (\<lambda>i. show_int (AltCounters s ! i)) [0 ..< 8] = map show_int (take 8 (AltCounters s))"
    using ls(2) by (simp only: map_index_take)
  have r1: "read_into (AltRooms t) 0 6 (map show_int (AltRooms s) @ R) = Inr (True, AltRooms s, R)" for R
    using read_into_values [of 0 "AltRooms s" "AltRooms t" R] ls ok by simp
  have c9: "take 8 (AltCounters s) @ drop 8 ((AltCounters t)[8 := AltCounters s ! 8]) = AltCounters s"
  proof (rule nth_equalityI)
    show "length (take 8 (AltCounters s) @ drop 8 ((AltCounters t)[8 := AltCounters s ! 8]))
            = length (AltCounters s)"
      using ls by simp
  next
    fix i
    assume "i < length (take 8 (AltCounters s) @ drop 8 ((AltCounters t)[8 := AltCounters s ! 8]))"
    then have "i < 9" using ls by simp
    then have "i < 8 \<or> i = 8" by arith
    then show "(take 8 (AltCounters s) @ drop 8 ((AltCounters t)[8 := AltCounters s ! 8])) ! i
                 = AltCounters s ! i"
      using ls by (auto simp add: nth_append)
  qed
  have r2: "read_into ((AltCounters t)[8 := AltCounters s ! 8]) 0 8
              (map show_int (take 8 (AltCounters s)) @ R) = Inr (True, AltCounters s, R)" for R
    using read_into_values [of 0 "take 8 (AltCounters s)" "(AltCounters t)[8 := AltCounters s ! 8]" R]
      ls ok c9 by (simp add: list_all_take)
  have r3: "read_into (ItemLocations t) 0 (nat (NumItems (Header s) + 1)) (map show_int (ItemLocations s))
              = Inr (True, ItemLocations s, [])"
    using read_into_values [of 0 "ItemLocations s" "ItemLocations t" "[]"] ls ln ok by simp
  show ?thesis
    unfolding m1 m2
    by (simp add: load_lines_def Let_def h r1 r2 r3 Atoi_show_int ParseUint32_show ok ok8)
qed

lemma SaveGame_writes:
  assumes "stdin w = name # rest" and "creatable w (default_name name)"
    and "int (length (ItemLocations s)) = NumItems (Header s) + 1"
  shows "\<exists>ls w1. save_lines s = Inr ls \<and> SaveGame (s, w) = Inr (s, w1)
           \<and> stdin w1 = rest \<and> disk w1 (default_name name) = File ls"
proof -
  obtain ls where ls: "save_lines s = Inr ls" using save_lines_eq [OF assms(3)] by blast
  let ?w1 = "w\<lparr>stdin := rest,
       stdout := stdout w @ ''Enter filename to save: '' @ ''Game saved.'' @ nl,
       disk := (disk w)(default_name name := File ls)\<rparr>"
  have "disk w (default_name name) = NoFile \<or> (\<exists>l. disk w (default_name name) = File l)"
    using assms(2) by (cases "disk w (default_name name)") (simp_all add: creatable_def)
  then have "SaveGame (s, w) = Inr (s, ?w1)"
    using assms(1) ls
    by (auto simp add: SaveGame_def read_line_def print_def println_def Let_def)
  moreover have "stdin ?w1 = rest" by simp
  moreover have "disk ?w1 (default_name name) = File ls" by simp
  ultimately show ?thesis using ls by blast
qed

lemma LoadGame_reads:
  assumes "stdin w = name # rest" and "disk w (default_name name) = File ls"
  shows "LoadGame (t, w) = load_lines t (snd (read_line (print ''Enter filename to load: '' w))) ls"
  using assms by (simp add: LoadGame_def read_line_def print_def Let_def)

text \<open>
  C7. Saving a game state \<open>s\<close> and loading the file into a state \<open>t\<close> of the same
  adventure gives \<open>t\<close> with the current room, the counter, the 32 flags, the nine alternate
  counters (the light counter among them), the six alternate rooms and the whole item
  table of \<open>s\<close>; with \<open>t = s\<close> this is \<open>s\<close> itself, to be displayed again.
\<close>

theorem save_then_load_restores:
  assumes "arrays_ok s" and "ints_ok s" and "arrays_ok t" and "Header t = Header s"
    and "stdin w = name # name # rest" and "creatable w (default_name name)"
  shows "\<exists>w1 w2. SaveGame (s, w) = Inr (s, w1)
     \<and> LoadGame (t, w1) =
         Inr (t\<lparr>CurrentRoom := CurrentRoom s, Counter := Counter s, BitFlags := BitFlags s,
                AltCounters := AltCounters s, AltRooms := AltRooms s,
                ItemLocations := ItemLocations s, DisplayedRoom := False\<rparr>, w2)"
proof -
  have n: "int (length (ItemLocations s)) = NumItems (Header s) + 1"
    using assms(1) by (simp add: arrays_ok_def)
  obtain ls w1 where ls: "save_lines s = Inr ls"
    and sv: "SaveGame (s, w) = Inr (s, w1)"
    and w1: "stdin w1 = name # rest" "disk w1 (default_name name) = File ls"
    using SaveGame_writes [OF assms(5) assms(6) n] by blast
  have "LoadGame (t, w1) = load_lines t (snd (read_line (print ''Enter filename to load: '' w1))) ls"
    using w1 by (rule LoadGame_reads)
  moreover have "ls = [show_int (AdventureNumber (Header s)), show_int (CurrentRoom s), show_int (Counter s),
           show_nat (unat (BitFlags s)), show_int (AltCounters s ! 8)]
          @ map (\<lambda>i. show_int (AltRooms s ! i)) [0 ..< 6]
          @ map (\<lambda>i. show_int (AltCounters s ! i)) [0 ..< 8]
          @ map show_int (ItemLocations s)"
    using ls save_lines_eq [OF n] by simp
  ultimately have "\<exists>w2. LoadGame (t, w1) =
         Inr (t\<lparr>CurrentRoom := CurrentRoom s, Counter := Counter s, BitFlags := BitFlags s,
                AltCounters := AltCounters s, AltRooms := AltRooms s,
                ItemLocations := ItemLocations s, DisplayedRoom := False\<rparr>, w2)"
    using load_lines_saved [OF assms(1) assms(3) assms(4) assms(2)] by simp
  then show ?thesis using sv by blast
qed

lemma demo_arrays_ok: "arrays_ok demo"
  by (simp add: arrays_ok_def action_ok_def demo_def demo_actions_def demo_header_def demo_locations_def)

lemma demo_later_ok: "arrays_ok demo_later \<and> ints_ok demo_later \<and> Header demo = Header demo_later"
  by (simp add: arrays_ok_def ints_ok_def int64_ok_def action_ok_def demo_later_def demo_def
      demo_actions_def demo_header_def demo_locations_def)

theorem save_then_load_restores_witness:
  "arrays_ok demo_later \<and> ints_ok demo_later \<and> arrays_ok demo \<and> Header demo = Header demo_later
   \<and> stdin (console_with_save []) = ''game.sav'' # ''game.sav'' # []
   \<and> creatable (console_with_save []) (default_name ''game.sav'')
   \<and> (\<exists>w1 w2. SaveGame (demo_later, console_with_save []) = Inr (demo_later, w1)
        \<and> LoadGame (demo, w1) = Inr (demo_later\<lparr>DisplayedRoom := False\<rparr>, w2))"
proof -
  have a: "arrays_ok demo_later" and b: "ints_ok demo_later" and c: "Header demo = Header demo_later"
    using demo_later_ok by simp_all
  have d: "stdin (console_with_save []) = ''game.sav'' # ''game.sav'' # []"
    by (simp add: console_with_save_def)
  have e: "creatable (console_with_save []) (default_name ''game.sav'')"
    by (simp add: creatable_def console_with_save_def default_name_def)
  have f: "demo\<lparr>CurrentRoom := CurrentRoom demo_later, Counter := Counter demo_later,
                BitFlags := BitFlags demo_later, AltCounters := AltCounters demo_later,
                AltRooms := AltRooms demo_later, ItemLocations := ItemLocations demo_later,
                DisplayedRoom := False\<rparr> = demo_later\<lparr>DisplayedRoom := False\<rparr>"
    by (simp add: demo_later_def)
  show ?thesis
    using a b c d e demo_arrays_ok save_then_load_restores [OF a b demo_arrays_ok c d e]
    by (simp only: f)
qed

section \<open>Loads that fail\<close>

text \<open>
  C5, as amended. A load that fails because the file cannot be opened, because the file
  is empty or because its adventure number is another one leaves the game state as it
  was. \<open>LoadGame\<close> assigns each field as soon as its line is read: a file that ends after
  the room line leaves the room overwritten.
\<close>

theorem LoadGame_early_failure_keeps_state:
  assumes "read_line (print ''Enter filename to load: '' w) = (name, w1)"
  shows "(disk w1 (default_name name) = NoFile \<longrightarrow>
            LoadGame (s, w) = Inr (s, print (''Error opening save file: open '' @ default_name name
                                            @ '': no such file or directory'' @ nl) w1))
       \<and> (disk w1 (default_name name) = Denied err \<longrightarrow>
            LoadGame (s, w) = Inr (s, print (''Error opening save file: '' @ err @ nl) w1))
       \<and> (disk w1 (default_name name) = File [] \<longrightarrow>
            LoadGame (s, w) = Inr (s, println ''Error reading save file.'' w1))
       \<and> (disk w1 (default_name name) = File (l0 # ls) \<and> Atoi l0 \<noteq> AdventureNumber (Header s) \<longrightarrow>
            LoadGame (s, w) = Inr (s, println ''This save file is for a different adventure.'' w1))
       \<and> (disk w1 (default_name name) = File [l0, l1] \<and> Atoi l0 = AdventureNumber (Header s) \<longrightarrow>
            LoadGame (s, w) = Inr (s\<lparr>CurrentRoom := Atoi l1\<rparr>, println ''Error reading save file.'' w1))"
  using assms by (simp add: LoadGame_def load_lines_def read_failed_def Let_def)

theorem LoadGame_early_failure_keeps_state_witness:
  "read_line (print ''Enter filename to load: '' console) = ([], print ''Enter filename to load: '' console)
   \<and> disk (print ''Enter filename to load: '' console) (default_name []) = NoFile
   \<and> LoadGame (demo, console) =
       Inr (demo, print (''Error opening save file: open '' @ default_name []
                         @ '': no such file or directory'' @ nl) (print ''Enter filename to load: '' console))
   \<and> read_line (print ''Enter filename to load: '' console_denied)
       = (''game.sav'', (print ''Enter filename to load: '' console_denied)\<lparr>stdin := []\<rparr>)
   \<and> disk ((print ''Enter filename to load: '' console_denied)\<lparr>stdin := []\<rparr>) (default_name ''game.sav'')
       = Denied ''permission denied''
   \<and> LoadGame (demo, console_denied) =
       Inr (demo, print (''Error opening save file: '' @ ''permission denied'' @ nl)
                    ((print ''Enter filename to load: '' console_denied)\<lparr>stdin := []\<rparr>))
   \<and> read_line (print ''Enter filename to load: '' (console_with_save []))
       = (''game.sav'', (print ''Enter filename to load: '' (console_with_save []))\<lparr>stdin := [''game.sav'']\<rparr>)
   \<and> disk ((print ''Enter filename to load: '' (console_with_save []))\<lparr>stdin := [''game.sav'']\<rparr>)
        (default_name ''game.sav'') = File []
   \<and> LoadGame (demo, console_with_save []) =
       Inr (demo, println ''Error reading save file.''
                    ((print ''Enter filename to load: '' (console_with_save []))\<lparr>stdin := [''game.sav'']\<rparr>))
   \<and> read_line (print ''Enter filename to load: '' (console_with_save [''7'']))
       = (''game.sav'', (print ''Enter filename to load: '' (console_with_save [''7'']))\<lparr>stdin := [''game.sav'']\<rparr>)
   \<and> disk ((print ''Enter filename to load: '' (console_with_save [''7'']))\<lparr>stdin := [''game.sav'']\<rparr>)
        (default_name ''game.sav'') = File [''7'']
   \<and> Atoi ''7'' \<noteq> AdventureNumber (Header demo)
   \<and> LoadGame (demo, console_with_save [''7'']) =
       Inr (demo, println ''This save file is for a different adventure.''
                    ((print ''Enter filename to load: '' (console_with_save [''7'']))\<lparr>stdin := [''game.sav'']\<rparr>))
   \<and> read_line (print ''Enter filename to load: '' (console_with_save [''1'', ''9'']))
       = (''game.sav'', (print ''Enter filename to load: '' (console_with_save [''1'', ''9'']))\<lparr>stdin := [''game.sav'']\<rparr>)
   \<and> disk ((print ''Enter filename to load: '' (console_with_save [''1'', ''9'']))\<lparr>stdin := [''game.sav'']\<rparr>)
        (default_name ''game.sav'') = File [''1'', ''9'']
   \<and> Atoi ''1'' = AdventureNumber (Header demo)
   \<and> LoadGame (demo, console_with_save [''1'', ''9'']) =
       Inr (demo\<lparr>CurrentRoom := Atoi ''9''\<rparr>, println ''Error reading save file.''
                    ((print ''Enter filename to load: '' (console_with_save [''1'', ''9'']))\<lparr>stdin := [''game.sav'']\<rparr>))"
proof -
  have r1: "read_line (print ''Enter filename to load: '' console) = ([], print ''Enter filename to load: '' console)"
    by (simp add: read_line_def print_def console_def)
  have d1: "disk (print ''Enter filename to load: '' console) (default_name []) = NoFile"
    by (simp add: print_def console_def)
  have r2: "read_line (print ''Enter filename to load: '' console_denied)
       = (''game.sav'', (print ''Enter filename to load: '' console_denied)\<lparr>stdin := []\<rparr>)"
    by (simp add: read_line_def print_def console_denied_def)
  have d2: "disk ((print ''Enter filename to load: '' console_denied)\<lparr>stdin := []\<rparr>) (default_name ''game.sav'')
       = Denied ''permission denied''"
    by (simp add: print_def console_denied_def)
  have r: "read_line (print ''Enter filename to load: '' (console_with_save ls))
       = (''game.sav'', (print ''Enter filename to load: '' (console_with_save ls))\<lparr>stdin := [''game.sav'']\<rparr>)" for ls
    by (simp add: read_line_def print_def console_with_save_def)
  have d: "disk ((print ''Enter filename to load: '' (console_with_save ls))\<lparr>stdin := [''game.sav'']\<rparr>)
        (default_name ''game.sav'') = File ls" for ls
    by (simp add: print_def console_with_save_def default_name_def)
  have a7: "Atoi ''7'' \<noteq> AdventureNumber (Header demo)"
    by (simp add: Atoi_def digit_val_def demo_def demo_header_def)
  have a1: "Atoi ''1'' = AdventureNumber (Header demo)"
    by (simp add: Atoi_def digit_val_def demo_def demo_header_def)
  note T1 = LoadGame_early_failure_keeps_state [OF r1, where s = demo]
  note T2 = LoadGame_early_failure_keeps_state [OF r2, where s = demo and err = "''permission denied''"]
  note T3 = LoadGame_early_failure_keeps_state [OF r [of "[]"], where s = demo]
  note T4 = LoadGame_early_failure_keeps_state [OF r [of "[''7'']"], where s = demo and ?l0.0 = "''7''" and ls = "[]"]
  note T5 = LoadGame_early_failure_keeps_state [OF r [of "[''1'', ''9'']"], where s = demo and ?l0.0 = "''1''" and ?l1.0 = "''9''"]
  have c1: "LoadGame (demo, console) =
       Inr (demo, print (''Error opening save file: open '' @ default_name []
                         @ '': no such file or directory'' @ nl) (print ''Enter filename to load: '' console))"
    using T1 d1 by blast
  have c2: "LoadGame (demo, console_denied) =
       Inr (demo, print (''Error opening save file: '' @ ''permission denied'' @ nl)
                    ((print ''Enter filename to load: '' console_denied)\<lparr>stdin := []\<rparr>))"
    using T2 d2 by blast
  have c3: "LoadGame (demo, console_with_save []) =
       Inr (demo, println ''Error reading save file.''
                    ((print ''Enter filename to load: '' (console_with_save []))\<lparr>stdin := [''game.sav'']\<rparr>))"
    using T3 d [of "[]"] by blast
  have c4: "LoadGame (demo, console_with_save [''7'']) =
       Inr (demo, println ''This save file is for a different adventure.''
                    ((print ''Enter filename to load: '' (console_with_save [''7'']))\<lparr>stdin := [''game.sav'']\<rparr>))"
    using T4 d [of "[''7'']"] a7 by blast
  have c5: "LoadGame (demo, console_with_save [''1'', ''9'']) =
       Inr (demo\<lparr>CurrentRoom := Atoi ''9''\<rparr>, println ''Error reading save file.''
                    ((print ''Enter filename to load: '' (console_with_save [''1'', ''9'']))\<lparr>stdin := [''game.sav'']\<rparr>))"
    using T5 d [of "[''1'', ''9'']"] a1 by blast
  show ?thesis
    using r1 d1 c1 r2 d2 c2 r [of "[]"] d [of "[]"] c3 r [of "[''7'']"] d [of "[''7'']"] a7 c4
      r [of "[''1'', ''9'']"] d [of "[''1'', ''9'']"] a1 c5
    by (intro conjI)
qed

text \<open>
  A saved game that ends after the room line: the load fails and the current room has
  changed from 1 to 2.
\<close>

theorem truncated_save_overwrites_room:
  "CurrentRoom demo = 1
   \<and> LoadGame (demo, console_with_save [''1'', ''2'']) =
       Inr (demo\<lparr>CurrentRoom := 2\<rparr>,
            \<lparr>stdin = [''game.sav''], stdout = ''Enter filename to load: '' @ ''Error reading save file.'' @ nl,
             disk = (\<lambda>path. if path = ''game.sav'' then File [''1'', ''2''] else NoFile),
             rng = (\<lambda>i. 0), rng_used = 0\<rparr>)"
  by (simp add: LoadGame_def load_lines_def read_failed_def Let_def read_line_def print_def println_def
      console_with_save_def default_name_def Atoi_def digit_val_def demo_def demo_header_def)

section \<open>Where a command takes its parameters from\<close>

lemma with_table_simps [simp]:
  "with_table acts k (Inl e) = Inl e"
  "with_table acts k (Inr (s, w)) = Inr (s\<lparr>Actions := acts, CurrentAction := k\<rparr>, w)"
  by (simp_all add: with_table_def)


lemma getItemDescription_table [simp]:
  "getItemDescription (s\<lparr>Actions := acts, CurrentAction := k\<rparr>) n = getItemDescription s n"
  by (simp add: getItemDescription_def)

lemma getItemDescription_locs [simp]:
  "getItemDescription (s\<lparr>ItemLocations := l\<rparr>) n = getItemDescription s n"
  by (simp add: getItemDescription_def)

lemma carried_count_table [simp]:
  "carried_count (s\<lparr>Actions := acts, CurrentAction := k\<rparr>) = carried_count s"
  by (simp add: carried_count_def)



lemma score_loop_table [simp]:
  "score_loop (s\<lparr>Actions := acts, CurrentAction := k\<rparr>) is n = score_loop s is n"
  by (induction "is" arbitrary: n) (simp_all add: bnd_def split: sum.splits)


lemma inventory_loop_table [simp]:
  "inventory_loop (s\<lparr>Actions := acts, CurrentAction := k\<rparr>) is cw = inventory_loop s is cw"
  by (induction "is" arbitrary: cw) (simp_all add: bnd_def split: sum.splits)


lemma save_lines_table [simp]:
  "save_lines (s\<lparr>Actions := acts, CurrentAction := k\<rparr>) = save_lines s"
  by (simp add: save_lines_def)








end
